theory Spec2Isabelle
  imports Main "HOL-Library.Word" "HOL-Library.Sublist"
begin

section \<open>Scalar types of the backend\<close>

text \<open>
  The C typedefs the conflict code works with: \<open>TransactionId\<close> and \<open>Oid\<close> are
  unsigned 32-bit, \<open>XLogRecPtr\<close> unsigned 64-bit, \<open>TimestampTz\<close> a signed 64-bit
  count of microseconds (read with \<open>sint\<close>), \<open>RepOriginId\<close> unsigned 16-bit.
\<close>

type_synonym TransactionId = "32 word"
type_synonym Oid = "32 word"
type_synonym XLogRecPtr = "64 word"
type_synonym TimestampTz = "64 word"
type_synonym RepOriginId = "16 word"

definition InvalidTransactionId :: TransactionId where
  "InvalidTransactionId = 0"

definition InvalidOid :: Oid where
  "InvalidOid = 0"

definition InvalidRepOriginId :: RepOriginId where
  "InvalidRepOriginId = 0"

text \<open>
  \<open>elog(ERROR, ...)\<close> leaves the function by a non-local exit that aborts the
  transaction; it is the left summand of a result. Reading through a null pointer is
  kept apart from it: it is a crash of the backend, not a raised error.
\<close>

datatype error = ERROR string | NullPointerDereference

section \<open>Node identity\<close>

text \<open>bdr.h uses \<open>BDRNodeId\<close> through its fields \<open>sysid\<close>, \<open>timeline\<close> and \<open>dboid\<close>.\<close>

record BDRNodeId =
  sysid :: "64 word"
  timeline :: "32 word"
  dboid :: Oid

section \<open>Conflict types and resolutions (bdr.h)\<close>

datatype BdrConflictType =
    BdrConflictType_InsertInsert
  | BdrConflictType_InsertUpdate
  | BdrConflictType_UpdateUpdate
  | BdrConflictType_UpdateDelete
  | BdrConflictType_DeleteDelete
  | BdrConflictType_UnhandledTxAbort

datatype BdrConflictResolution =
    BdrConflictResolution_ConflictTriggerSkipChange
  | BdrConflictResolution_ConflictTriggerReturnedTuple
  | BdrConflictResolution_LastUpdateWins_KeepLocal
  | BdrConflictResolution_LastUpdateWins_KeepRemote
  | BdrConflictResolution_DefaultApplyChange
  | BdrConflictResolution_DefaultSkipChange
  | BdrConflictResolution_UnhandledTxAbort

section \<open>Tuples, relations and error data\<close>

text \<open>
  A column value as \<open>heap_getattr\<close> hands it over: stored in line, or a pointer to an
  on-disk TOAST value (\<open>VARATT_IS_EXTERNAL_ONDISK\<close>). \<open>None\<close> in a tuple's column
  list is SQL NULL.
\<close>

datatype attr_value = Inline string | ExternalOnDisk Oid

fun VARATT_IS_EXTERNAL_ONDISK :: "attr_value \<Rightarrow> bool" where
  "VARATT_IS_EXTERNAL_ONDISK (ExternalOnDisk _) = True"
| "VARATT_IS_EXTERNAL_ONDISK (Inline _) = False"

record HeapTupleData =
  t_xmin :: TransactionId
  t_typeid :: Oid
  t_typmod :: int
  t_values :: "attr_value option list"

text \<open>
  A \<open>TupleTableSlot *\<close> argument is a slot holding a heap tuple, or NULL (\<open>None\<close>).
  A composite \<open>Datum\<close> is the tuple it points to; \<open>(Datum) 0\<close> is \<open>None\<close>.
\<close>

type_synonym TupleTableSlot = HeapTupleData
type_synonym composite_Datum = "HeapTupleData option"

definition ExecFetchSlotHeapTupleDatum :: "TupleTableSlot \<Rightarrow> composite_Datum" where
  "ExecFetchSlotHeapTupleDatum slot = Some slot"

record FormData_pg_attribute =
  attname :: string
  atttypid :: Oid
  attisdropped :: bool
  attnum :: int

type_synonym TupleDesc = "FormData_pg_attribute list"

record BDRRelation =
  relname :: string
  relnamespace :: Oid

record ErrorData =
  sqlerrcode :: "32 word"
  message :: "string option"
  detail :: "string option"
  hint :: "string option"
  error_context :: "string option"
  schema_name :: "string option"
  table_name :: "string option"
  column_name :: "string option"
  datatype_name :: "string option"
  constraint_name :: "string option"
  cursorpos :: "32 word"
  filename :: "string option"
  lineno :: "32 word"
  funcname :: "string option"

section \<open>The conflict record (bdr.h, \<open>BdrApplyConflict\<close>)\<close>

record BdrApplyConflict =
  local_conflict_txid :: TransactionId
  local_conflict_lsn :: XLogRecPtr
  local_conflict_time :: TimestampTz
  object_schema :: "string option"
  object_name :: "string option"
  remote_node :: BDRNodeId
  remote_txid :: TransactionId
  remote_commit_time :: TimestampTz
  remote_commit_lsn :: XLogRecPtr
  conflict_type :: BdrConflictType
  conflict_resolution :: BdrConflictResolution
  local_tuple_null :: bool
  local_tuple :: composite_Datum
  local_tuple_xmin :: TransactionId
  local_tuple_origin_node :: BDRNodeId
  local_commit_time :: TimestampTz
  remote_tuple_null :: bool
  remote_tuple :: composite_Datum
  apply_error :: "ErrorData option"

text \<open>\<open>palloc0(sizeof(BdrApplyConflict))\<close>: every field zero, every pointer NULL.\<close>

definition palloc0_BdrApplyConflict :: BdrApplyConflict where
  "palloc0_BdrApplyConflict =
     \<lparr> local_conflict_txid = 0, local_conflict_lsn = 0, local_conflict_time = 0,
       object_schema = None, object_name = None,
       remote_node = \<lparr> sysid = 0, timeline = 0, dboid = 0 \<rparr>,
       remote_txid = 0, remote_commit_time = 0, remote_commit_lsn = 0,
       conflict_type = BdrConflictType_InsertInsert,
       conflict_resolution = BdrConflictResolution_ConflictTriggerSkipChange,
       local_tuple_null = False, local_tuple = None, local_tuple_xmin = 0,
       local_tuple_origin_node = \<lparr> sysid = 0, timeline = 0, dboid = 0 \<rparr>,
       local_commit_time = 0,
       remote_tuple_null = False, remote_tuple = None,
       apply_error = None \<rparr>"

section \<open>The backend around the conflict code\<close>

text \<open>
  Functions the conflict code calls whose bodies are in PostgreSQL or in other files of
  the extension are parameters, collected in one record. Each field carries the name of
  the function it stands for and returns what a call of it returns; a call that may
  raise returns a sum.
\<close>

datatype sqlstate =
    ERRCODE_INTEGRITY_CONSTRAINT_VIOLATION
  | ERRCODE_T_R_SERIALIZATION_FAILURE

datatype elevel = LOG

record log_entry =
  entry_level :: elevel
  entry_errcode :: sqlstate
  errmsg :: string

datatype Datum =
    Datum_0
  | Int64GetDatum "64 word"
  | Int32GetDatum "32 word"
  | CStringGetTextDatum string
  | TransactionIdGetDatum TransactionId
  | LSNGetDatum XLogRecPtr
  | TimestampTzGetDatum TimestampTz
  | ObjectIdGetDatum Oid
  | JsonDatum string

record services =
  bdr_make_my_nodeid :: BDRNodeId
  bdr_fetch_sysid_via_node_id :: "RepOriginId \<Rightarrow> error + BDRNodeId"
  bdr_get_my_cached_remote_name :: "BDRNodeId \<Rightarrow> string"
  get_namespace_name :: "Oid \<Rightarrow> string option"
  SearchSysCache_TYPEOID :: "Oid \<Rightarrow> string option"
  getTypeOutputInfo :: "Oid \<Rightarrow> error + (Oid \<times> bool)"
  OidOutputFunctionCall :: "Oid \<Rightarrow> attr_value \<Rightarrow> error + string"
  PG_DETOAST_DATUM :: "attr_value \<Rightarrow> attr_value"
  lookup_rowtype_tupdesc :: "Oid \<Rightarrow> int \<Rightarrow> error + TupleDesc"
  GetSysCacheOid_ENUMTYPOIDNAME :: "Oid \<Rightarrow> string \<Rightarrow> Oid"
  row_to_json :: "HeapTupleData \<Rightarrow> error + string"
  unpack_sql_state :: "32 word \<Rightarrow> string"
  ExecInsertIndexTuples :: "Datum list \<times> bool list \<Rightarrow> error + Oid list"

text \<open>
  The process state the conflict code reads and writes: the two configuration flags, the
  catalog identifiers cached at worker startup, what the transaction machinery and the
  replication-origin session report at the moment of a call, and the two places a
  conflict is written to.
\<close>

type_synonym history_row = "Datum list \<times> bool list"

record backend =
  bdr_log_conflicts_to_table :: bool
  bdr_conflict_logging_include_tuples :: bool
  BdrConflictTypeOid :: Oid
  BdrConflictResolutionOid :: Oid
  BdrConflictHistorySeqId :: Oid
  IsTransactionState :: bool
  IsAbortedTransactionBlockState :: bool
  GetTopTransactionIdIfAny :: TransactionId
  GetXLogInsertRecPtr :: XLogRecPtr
  GetCurrentTimestamp :: TimestampTz
  replorigin_session_origin :: RepOriginId
  replorigin_session_origin_timestamp :: TimestampTz
  replorigin_session_origin_lsn :: XLogRecPtr
  sequence_last_value :: "Oid \<Rightarrow> 64 word"
  history_num_indices :: nat
  bdr_conflict_history :: "history_row list"
  server_log :: "log_entry list"

section \<open>Building a conflict record (\<open>bdr_make_apply_conflict\<close>)\<close>

text \<open>
  The function fills a zeroed record field by field, in the order of the source. The two
  lookups of a node identity are the only calls in it that can raise. The source's
  \<open>Assert\<close> on the local tuple's xmin is compiled out of production builds and has no
  branch here.
\<close>

definition bdr_make_apply_conflict ::
  "services \<Rightarrow> backend \<Rightarrow> BdrConflictType \<Rightarrow> BdrConflictResolution \<Rightarrow> TransactionId \<Rightarrow>
   BDRRelation option \<Rightarrow> TupleTableSlot option \<Rightarrow> RepOriginId \<Rightarrow> TupleTableSlot option \<Rightarrow>
   TimestampTz \<Rightarrow> ErrorData option \<Rightarrow> error + BdrApplyConflict" where
  "bdr_make_apply_conflict sv st conflict_type_arg resolution remote_txid_arg conflict_relation
       local_tuple_arg local_tuple_origin_id remote_tuple_arg local_commit_ts apply_error_arg =
    (let conflict = palloc0_BdrApplyConflict;
         conflict = conflict\<lparr> conflict_type := conflict_type_arg \<rparr>;
         conflict = conflict\<lparr> conflict_resolution := resolution \<rparr>;
         conflict = conflict\<lparr> local_conflict_txid := GetTopTransactionIdIfAny st \<rparr>;
         conflict = conflict\<lparr> local_conflict_lsn := GetXLogInsertRecPtr st \<rparr>;
         conflict = conflict\<lparr> local_conflict_time := GetCurrentTimestamp st \<rparr>;
         conflict = conflict\<lparr> remote_txid := remote_txid_arg \<rparr>;
         conflict =
           (case conflict_relation of
              None \<Rightarrow> conflict\<lparr> object_schema := None, object_name := None \<rparr>
            | Some rel \<Rightarrow>
                conflict\<lparr> object_name := Some (relname rel),
                          object_schema := get_namespace_name sv (relnamespace rel) \<rparr>)
     in case bdr_fetch_sysid_via_node_id sv (replorigin_session_origin st) of
          Inl e \<Rightarrow> Inl e
        | Inr remote \<Rightarrow>
           (let conflict = conflict\<lparr> remote_node := remote \<rparr>;
                conflict = conflict\<lparr> remote_commit_time := replorigin_session_origin_timestamp st \<rparr>;
                conflict = conflict\<lparr> remote_txid := remote_txid_arg \<rparr>;
                conflict = conflict\<lparr> remote_commit_lsn := replorigin_session_origin_lsn st \<rparr>;
                conflict =
                  (case local_tuple_arg of
                     Some slot \<Rightarrow>
                       (let conflict = conflict\<lparr> local_tuple_xmin := t_xmin slot \<rparr>
                        in if bdr_conflict_logging_include_tuples st
                           then conflict\<lparr> local_tuple := ExecFetchSlotHeapTupleDatum slot,
                                          local_tuple_null := False \<rparr>
                           else conflict)
                   | None \<Rightarrow>
                       conflict\<lparr> local_tuple_null := True, local_tuple := None,
                                 local_tuple_xmin := InvalidTransactionId \<rparr>)
            in case (if local_tuple_origin_id \<noteq> InvalidRepOriginId
                     then bdr_fetch_sysid_via_node_id sv local_tuple_origin_id
                     else Inr (bdr_make_my_nodeid sv)) of
                 Inl e \<Rightarrow> Inl e
               | Inr origin_node \<Rightarrow>
                  (let conflict = conflict\<lparr> local_tuple_origin_node := origin_node \<rparr>;
                       conflict = conflict\<lparr> local_commit_time := local_commit_ts \<rparr>;
                       conflict =
                         (case remote_tuple_arg of
                            Some slot \<Rightarrow>
                              if bdr_conflict_logging_include_tuples st
                              then conflict\<lparr> remote_tuple := ExecFetchSlotHeapTupleDatum slot,
                                             remote_tuple_null := False \<rparr>
                              else conflict\<lparr> remote_tuple_null := True, remote_tuple := None \<rparr>
                          | None \<Rightarrow> conflict\<lparr> remote_tuple_null := True, remote_tuple := None \<rparr>);
                       conflict = conflict\<lparr> apply_error := apply_error_arg \<rparr>
                   in Inr conflict)))"

section \<open>Formatting\<close>

text \<open>\<open>%u\<close> and \<open>UINT64_FORMAT\<close>: an unsigned number in decimal, without padding.\<close>

definition digit_char :: "nat \<Rightarrow> char" where
  "digit_char d = ''0123456789'' ! (d mod 10)"

function format_u :: "nat \<Rightarrow> string" where
  "format_u n = (if n < 10 then [digit_char n] else format_u (n div 10) @ [digit_char (n mod 10)])"
  by pat_completeness auto
termination
  by (relation "measure id") auto

declare format_u.simps [simp del]

text \<open>
  \<open>BDR_NODEID_FORMAT_WITHNAME\<close> with \<open>BDR_NODEID_FORMAT_WITHNAME_ARGS(node)\<close>: the cached
  name of the node, then \<open>(sysid,timeline,dboid,)\<close> with the empty replication name last.
\<close>

definition BDR_NODEID_FORMAT_WITHNAME :: "services \<Rightarrow> BDRNodeId \<Rightarrow> string" where
  "BDR_NODEID_FORMAT_WITHNAME sv node =
     bdr_get_my_cached_remote_name sv node @ '' ('' @ format_u (unat (sysid node)) @ '','' @
     format_u (unat (timeline node)) @ '','' @ format_u (unat (dboid node)) @ '','' @ [] @ '')''"

section \<open>Enum names (\<open>bdr_conflict_logging.c\<close>)\<close>

fun bdr_conflict_type_name :: "BdrConflictType \<Rightarrow> string" where
  "bdr_conflict_type_name BdrConflictType_InsertInsert = ''insert_insert''"
| "bdr_conflict_type_name BdrConflictType_InsertUpdate = ''insert_update''"
| "bdr_conflict_type_name BdrConflictType_UpdateUpdate = ''update_update''"
| "bdr_conflict_type_name BdrConflictType_UpdateDelete = ''update_delete''"
| "bdr_conflict_type_name BdrConflictType_DeleteDelete = ''delete_delete''"
| "bdr_conflict_type_name BdrConflictType_UnhandledTxAbort = ''unhandled_tx_abort''"

definition bdr_conflict_type_get_datum :: "services \<Rightarrow> backend \<Rightarrow> BdrConflictType \<Rightarrow> error + Datum" where
  "bdr_conflict_type_get_datum sv st ct =
     (let enumname = bdr_conflict_type_name ct;
          conflict_type_oid = GetSysCacheOid_ENUMTYPOIDNAME sv (BdrConflictTypeOid st) enumname
      in if conflict_type_oid = InvalidOid
         then Inl (ERROR (''syscache lookup for enum '' @ enumname @
                          '' of type bdr.bdr_conflict_type failed''))
         else Inr (ObjectIdGetDatum conflict_type_oid))"

fun bdr_conflict_resolution_get_name :: "BdrConflictResolution \<Rightarrow> string" where
  "bdr_conflict_resolution_get_name BdrConflictResolution_ConflictTriggerSkipChange =
     ''conflict_trigger_skip_change''"
| "bdr_conflict_resolution_get_name BdrConflictResolution_ConflictTriggerReturnedTuple =
     ''conflict_trigger_returned_tuple''"
| "bdr_conflict_resolution_get_name BdrConflictResolution_LastUpdateWins_KeepLocal =
     ''last_update_wins_keep_local''"
| "bdr_conflict_resolution_get_name BdrConflictResolution_LastUpdateWins_KeepRemote =
     ''last_update_wins_keep_remote''"
| "bdr_conflict_resolution_get_name BdrConflictResolution_DefaultApplyChange = ''apply_change''"
| "bdr_conflict_resolution_get_name BdrConflictResolution_DefaultSkipChange = ''skip_change''"
| "bdr_conflict_resolution_get_name BdrConflictResolution_UnhandledTxAbort = ''unhandled_tx_abort''"

definition bdr_conflict_resolution_get_datum ::
  "services \<Rightarrow> backend \<Rightarrow> BdrConflictResolution \<Rightarrow> error + Datum" where
  "bdr_conflict_resolution_get_datum sv st cr =
     (let enumname = bdr_conflict_resolution_get_name cr;
          conflict_resolution_oid =
            GetSysCacheOid_ENUMTYPOIDNAME sv (BdrConflictResolutionOid st) enumname
      in if conflict_resolution_oid = InvalidOid
         then Inl (ERROR (''syscache lookup for enum '' @ enumname @
                          '' of type bdr.bdr_conflict_resolution failed''))
         else Inr (ObjectIdGetDatum conflict_resolution_oid))"

section \<open>Printing a tuple (\<open>tuple_to_stringinfo\<close>, \<open>row_to_stringinfo\<close>)\<close>

text \<open>
  \<open>heap_getattr(tuple, attnum, tupdesc, &isnull)\<close> with \<open>attnum \<ge> 1\<close>: the column's
  value, \<open>None\<close> when it is NULL; a column beyond those stored in the tuple reads as NULL.
\<close>

definition heap_getattr :: "HeapTupleData \<Rightarrow> nat \<Rightarrow> attr_value option" where
  "heap_getattr tuple n =
     (if 1 \<le> n \<and> n \<le> length (t_values tuple) then t_values tuple ! (n - 1) else None)"

text \<open>One turn of the loop over the columns: the body for column \<open>natt\<close>.\<close>

definition tuple_to_stringinfo_column ::
  "services \<Rightarrow> string \<Rightarrow> FormData_pg_attribute \<Rightarrow> HeapTupleData \<Rightarrow> nat \<Rightarrow> error + string" where
  "tuple_to_stringinfo_column sv s attr tuple natt =
     (if attisdropped attr then Inr s
      else if attnum attr < 0 then Inr s
      else
        (let typid = atttypid attr
         in case SearchSysCache_TYPEOID sv typid of
              None \<Rightarrow> Inl (ERROR (''cache lookup failed for type '' @ format_u (unat typid)))
            | Some typname \<Rightarrow>
               (let s = s @ '' '';
                    s = s @ attname attr;
                    s = s @ ''['';
                    s = s @ typname;
                    s = s @ '']''
                in case getTypeOutputInfo sv typid of
                     Inl e \<Rightarrow> Inl e
                   | Inr (typoutput, typisvarlena) \<Rightarrow>
                      (case (case heap_getattr tuple (natt + 1) of
                               None \<Rightarrow> Inr ''(null)''
                             | Some origval \<Rightarrow>
                                 if typisvarlena \<and> VARATT_IS_EXTERNAL_ONDISK origval
                                 then Inr ''(unchanged-toast-datum)''
                                 else if typisvarlena
                                 then OidOutputFunctionCall sv typoutput (PG_DETOAST_DATUM sv origval)
                                 else OidOutputFunctionCall sv typoutput origval) of
                         Inl e \<Rightarrow> Inl e
                       | Inr outputstr \<Rightarrow> Inr (s @ '':'' @ outputstr)))))"

function tuple_to_stringinfo_from ::
  "services \<Rightarrow> TupleDesc \<Rightarrow> HeapTupleData \<Rightarrow> nat \<Rightarrow> string \<Rightarrow> error + string" where
  "tuple_to_stringinfo_from sv tupdesc tuple natt s =
     (if natt < length tupdesc
      then (case tuple_to_stringinfo_column sv s (tupdesc ! natt) tuple natt of
              Inl e \<Rightarrow> Inl e
            | Inr s' \<Rightarrow> tuple_to_stringinfo_from sv tupdesc tuple (natt + 1) s')
      else Inr s)"
  by pat_completeness auto
termination
  by (relation "measure (\<lambda>(sv, tupdesc, tuple, natt, s). length tupdesc - natt)") auto

declare tuple_to_stringinfo_from.simps [simp del]

definition tuple_to_stringinfo ::
  "services \<Rightarrow> string \<Rightarrow> TupleDesc \<Rightarrow> HeapTupleData \<Rightarrow> error + string" where
  "tuple_to_stringinfo sv s tupdesc tuple = tuple_to_stringinfo_from sv tupdesc tuple 0 s"

text \<open>
  \<open>row_to_stringinfo\<close> reads the composite's header to find its row type. The source does
  not test the datum: on \<open>(Datum) 0\<close> the read goes through a null pointer.
\<close>

definition row_to_stringinfo :: "services \<Rightarrow> string \<Rightarrow> composite_Datum \<Rightarrow> error + string" where
  "row_to_stringinfo sv s composite =
     (case composite of
        None \<Rightarrow> Inl NullPointerDereference
      | Some td \<Rightarrow>
         (case lookup_rowtype_tupdesc sv (t_typeid td) (t_typmod td) of
            Inl e \<Rightarrow> Inl e
          | Inr tupdesc \<Rightarrow> tuple_to_stringinfo sv s tupdesc td))"

section \<open>Logging a conflict to the server log (\<open>bdr_conflict_log_serverlog\<close>)\<close>

definition ereport :: "elevel \<Rightarrow> sqlstate \<Rightarrow> string \<Rightarrow> backend \<Rightarrow> backend" where
  "ereport lev code msg st =
     st\<lparr> server_log := server_log st @ [\<lparr> entry_level = lev, entry_errcode = code, errmsg = msg \<rparr>] \<rparr>"

definition CONFLICT_MSG_PREFIX :: "string \<Rightarrow> string" where
  "CONFLICT_MSG_PREFIX remote_op = ''CONFLICT: remote '' @ remote_op @ '':''"

text \<open>The message of the first three cases of the switch, and of the next two.\<close>

definition row_exists_message :: "services \<Rightarrow> BdrApplyConflict \<Rightarrow> string \<Rightarrow> string \<Rightarrow> string" where
  "row_exists_message sv conflict resolution_name s_key =
     CONFLICT_MSG_PREFIX
       (if conflict_type conflict = BdrConflictType_UpdateUpdate then ''UPDATE'' else ''INSERT'') @
     '' row was previously '' @
     (if conflict_type conflict = BdrConflictType_InsertInsert then ''INSERTed'' else ''UPDATEd'') @
     '' at node '' @ BDR_NODEID_FORMAT_WITHNAME sv (local_tuple_origin_node conflict) @
     ''. Resolution: '' @ resolution_name @ ''; PKEY:'' @ s_key"

definition row_missing_message :: "BdrApplyConflict \<Rightarrow> string \<Rightarrow> string \<Rightarrow> string" where
  "row_missing_message conflict resolution_name s_key =
     CONFLICT_MSG_PREFIX
       (if conflict_type conflict = BdrConflictType_UpdateDelete then ''UPDATE'' else ''DELETE'') @
     '' could not find existing row. Resolution: '' @ resolution_name @ ''; PKEY:'' @ s_key"

definition bdr_conflict_log_serverlog :: "services \<Rightarrow> backend \<Rightarrow> BdrApplyConflict \<Rightarrow> error + backend" where
  "bdr_conflict_log_serverlog sv st conflict =
     (let s_key = []
      in case (if \<not> local_tuple_null conflict
               then row_to_stringinfo sv s_key (local_tuple conflict)
               else Inr s_key) of
           Inl e \<Rightarrow> Inl e
         | Inr s_key \<Rightarrow>
            (let resolution_name = bdr_conflict_resolution_get_name (conflict_resolution conflict)
             in case conflict_type conflict of
                  BdrConflictType_InsertInsert \<Rightarrow>
                    Inr (ereport LOG ERRCODE_INTEGRITY_CONSTRAINT_VIOLATION
                           (row_exists_message sv conflict resolution_name s_key) st)
                | BdrConflictType_UpdateUpdate \<Rightarrow>
                    Inr (ereport LOG ERRCODE_INTEGRITY_CONSTRAINT_VIOLATION
                           (row_exists_message sv conflict resolution_name s_key) st)
                | BdrConflictType_InsertUpdate \<Rightarrow>
                    Inr (ereport LOG ERRCODE_INTEGRITY_CONSTRAINT_VIOLATION
                           (row_exists_message sv conflict resolution_name s_key) st)
                | BdrConflictType_UpdateDelete \<Rightarrow>
                    Inr (ereport LOG ERRCODE_INTEGRITY_CONSTRAINT_VIOLATION
                           (row_missing_message conflict resolution_name s_key) st)
                | BdrConflictType_DeleteDelete \<Rightarrow>
                    Inr (ereport LOG ERRCODE_INTEGRITY_CONSTRAINT_VIOLATION
                           (row_missing_message conflict resolution_name s_key) st)
                | BdrConflictType_UnhandledTxAbort \<Rightarrow> Inr st))"

section \<open>Logging a conflict to the history table (\<open>bdr_conflict_log_table\<close>)\<close>

definition BDR_CONFLICT_HISTORY_COLS :: nat where
  "BDR_CONFLICT_HISTORY_COLS = 35"

definition SYSID_DIGITS :: nat where
  "SYSID_DIGITS = 33"

text \<open>\<open>snprintf(buf, size, UINT64_FORMAT, v)\<close> keeps at most \<open>size - 1\<close> characters.\<close>

definition snprintf_u64 :: "nat \<Rightarrow> 64 word \<Rightarrow> string" where
  "snprintf_u64 bufsize v = take (bufsize - 1) (format_u (unat v))"

text \<open>\<open>nextval_oid\<close> on a sequence: the next value, and the sequence advanced.\<close>

definition nextval_oid :: "Oid \<Rightarrow> backend \<Rightarrow> 64 word \<times> backend" where
  "nextval_oid seq st =
     (sequence_last_value st seq + 1,
      st\<lparr> sequence_last_value := (sequence_last_value st)(seq := sequence_last_value st seq + 1) \<rparr>)"

text \<open>
  The tuple under construction: the arrays \<open>values\<close> and \<open>nulls\<close> and the running column
  number \<open>attno\<close>. The source writes \<open>values[attno]\<close> and \<open>nulls[attno]\<close> separately, so
  the two arrays are kept apart.
\<close>

type_synonym tuple_form = "Datum list \<times> bool list \<times> nat"

definition put_value :: "Datum \<Rightarrow> tuple_form \<Rightarrow> tuple_form" where
  "put_value d f = (case f of (vs, ns, attno) \<Rightarrow> (vs[attno := d], ns, attno))"

definition put_null :: "tuple_form \<Rightarrow> tuple_form" where
  "put_null f = (case f of (vs, ns, attno) \<Rightarrow> (vs, ns[attno := True], attno))"

definition attno_incr :: "tuple_form \<Rightarrow> tuple_form" where
  "attno_incr f = (case f of (vs, ns, attno) \<Rightarrow> (vs, ns, attno + 1))"

definition attno_add :: "nat \<Rightarrow> tuple_form \<Rightarrow> tuple_form" where
  "attno_add n f = (case f of (vs, ns, attno) \<Rightarrow> (vs, ns, attno + n))"

text \<open>\<open>values[attno] = d\<close> together with \<open>nulls[attno] = b\<close>.\<close>

definition put_column :: "Datum \<Rightarrow> bool \<Rightarrow> tuple_form \<Rightarrow> tuple_form" where
  "put_column d b f = (case f of (vs, ns, attno) \<Rightarrow> (vs[attno := d], ns[attno := b], attno))"

definition attno_of :: "tuple_form \<Rightarrow> nat" where
  "attno_of f = (case f of (vs, ns, attno) \<Rightarrow> attno)"

definition bdr_conflict_strtodatum :: "nat \<Rightarrow> string option \<Rightarrow> tuple_form \<Rightarrow> tuple_form" where
  "bdr_conflict_strtodatum idx in_str f =
     (case f of (vs, ns, attno) \<Rightarrow>
        (case in_str of
           None \<Rightarrow> (vs[idx := Datum_0], ns[idx := True], attno)
         | Some str \<Rightarrow> (vs[idx := CStringGetTextDatum str], ns[idx := False], attno)))"

text \<open>\<open>memset(&nulls[attno], 1, sizeof(bool) * n)\<close>, for a range inside the array.\<close>

definition memset_nulls :: "nat \<Rightarrow> tuple_form \<Rightarrow> tuple_form" where
  "memset_nulls n f =
     (case f of (vs, ns, attno) \<Rightarrow>
        (vs, take attno ns @ replicate n True @ drop (attno + n) ns, attno))"

definition bdr_conflict_row_to_json :: "services \<Rightarrow> composite_Datum \<Rightarrow> bool \<Rightarrow> error + Datum \<times> bool" where
  "bdr_conflict_row_to_json sv row row_isnull =
     (if row_isnull then Inr (Datum_0, True)
      else (case row of
              None \<Rightarrow> Inl NullPointerDereference
            | Some td \<Rightarrow>
               (case row_to_json sv td of
                  Inl e \<Rightarrow> Inl e
                | Inr row_json \<Rightarrow> Inr (JsonDatum row_json, False))))"

text \<open>
  Columns 0 to 10 (source lines 402 to 424): the sequence value, the local node, where
  and when the conflict was detected, the object, the remote node and its transaction.
\<close>

definition form_leading_columns ::
  "BdrApplyConflict \<Rightarrow> 64 word \<Rightarrow> string \<Rightarrow> string \<Rightarrow> tuple_form \<Rightarrow> tuple_form" where
  "form_leading_columns conflict seqval local_sysid remote_sysid f =
     (let f = attno_incr (put_value (Int64GetDatum seqval) f);
          f = attno_incr (put_value (CStringGetTextDatum local_sysid) f);
          f = attno_incr (put_value (TransactionIdGetDatum (local_conflict_txid conflict)) f);
          f = attno_incr (put_value (LSNGetDatum (local_conflict_lsn conflict)) f);
          f = attno_incr (put_value (TimestampTzGetDatum (local_conflict_time conflict)) f);
          f = attno_incr (bdr_conflict_strtodatum (attno_of f) (object_schema conflict) f);
          f = attno_incr (bdr_conflict_strtodatum (attno_of f) (object_name conflict) f);
          f = attno_incr (put_value (CStringGetTextDatum remote_sysid) f);
          f = (if remote_txid conflict \<noteq> InvalidTransactionId
               then put_value (TransactionIdGetDatum (remote_txid conflict)) f
               else put_null f);
          f = attno_incr f;
          f = attno_incr (put_value (TimestampTzGetDatum (remote_commit_time conflict)) f);
          f = attno_incr (put_value (LSNGetDatum (remote_commit_lsn conflict)) f)
      in f)"

text \<open>
  Columns 11 to 14 (source lines 425 to 436): the two enum values and the two tuples as
  JSON. Each of the four can raise.
\<close>

definition form_conflict_columns ::
  "services \<Rightarrow> backend \<Rightarrow> BdrApplyConflict \<Rightarrow> tuple_form \<Rightarrow> error + tuple_form" where
  "form_conflict_columns sv st conflict f =
     (case bdr_conflict_type_get_datum sv st (conflict_type conflict) of
        Inl e \<Rightarrow> Inl e
      | Inr type_datum \<Rightarrow>
         (let f = attno_incr (put_value type_datum f)
          in case bdr_conflict_resolution_get_datum sv st (conflict_resolution conflict) of
               Inl e \<Rightarrow> Inl e
             | Inr resolution_datum \<Rightarrow>
                (let f = attno_incr (put_value resolution_datum f)
                 in case bdr_conflict_row_to_json sv (local_tuple conflict)
                           (local_tuple_null conflict) of
                      Inl e \<Rightarrow> Inl e
                    | Inr (local_json, local_isnull) \<Rightarrow>
                       (let f = put_column local_json local_isnull f;
                            f = attno_incr f
                        in case bdr_conflict_row_to_json sv (remote_tuple conflict)
                                  (remote_tuple_null conflict) of
                             Inl e \<Rightarrow> Inl e
                           | Inr (remote_json, remote_isnull) \<Rightarrow>
                              (let f = put_column remote_json remote_isnull f;
                                   f = attno_incr f
                               in Inr f)))))"

text \<open>
  The error columns (source lines 450 to 512). Without error data thirteen columns are
  set NULL. With error data the source advances \<open>attno\<close> twelve times: the SQLSTATE is
  stored and the same column is then marked NULL for the missing query string. The
  object columns are overwritten from the error data.
\<close>

definition form_error_columns ::
  "services \<Rightarrow> BdrApplyConflict \<Rightarrow> nat \<Rightarrow> nat \<Rightarrow> tuple_form \<Rightarrow> tuple_form" where
  "form_error_columns sv conflict object_schema_attno object_name_attno f =
     (case apply_error conflict of
        None \<Rightarrow>
          (let f = memset_nulls 13 f;
               f = attno_add 13 f
           in f)
      | Some edata \<Rightarrow>
          (let f = attno_incr (bdr_conflict_strtodatum (attno_of f) (message edata) f);
               sqlstate = take 11 (unpack_sql_state sv (sqlerrcode edata));
               f = put_value (CStringGetTextDatum sqlstate) f;
               f = put_null f;
               f = attno_incr f;
               f = (if cursorpos edata \<noteq> 0
                    then put_value (Int32GetDatum (cursorpos edata)) f
                    else put_null f);
               f = attno_incr f;
               f = attno_incr (bdr_conflict_strtodatum (attno_of f) (detail edata) f);
               f = attno_incr (bdr_conflict_strtodatum (attno_of f) (hint edata) f);
               f = attno_incr (bdr_conflict_strtodatum (attno_of f) (error_context edata) f);
               f = attno_incr (bdr_conflict_strtodatum (attno_of f) (column_name edata) f);
               f = attno_incr (bdr_conflict_strtodatum (attno_of f) (datatype_name edata) f);
               f = attno_incr (bdr_conflict_strtodatum (attno_of f) (constraint_name edata) f);
               f = attno_incr (bdr_conflict_strtodatum (attno_of f) (filename edata) f);
               f = attno_incr (put_value (Int32GetDatum (lineno edata)) f);
               f = attno_incr (bdr_conflict_strtodatum (attno_of f) (funcname edata) f);
               f = bdr_conflict_strtodatum object_schema_attno (schema_name edata) f;
               f = bdr_conflict_strtodatum object_name_attno (table_name edata) f
           in f))"

text \<open>
  Columns 15 and 16 (source lines 438 to 448), the error columns, and the five columns
  after them (source lines 518 to 547).
\<close>

definition form_trailing_columns ::
  "services \<Rightarrow> BdrApplyConflict \<Rightarrow> string \<Rightarrow> nat \<Rightarrow> nat \<Rightarrow> tuple_form \<Rightarrow> tuple_form" where
  "form_trailing_columns sv conflict origin_sysid object_schema_attno object_name_attno f =
     (let f = (if local_tuple_xmin conflict \<noteq> InvalidTransactionId
               then put_value (TransactionIdGetDatum (local_tuple_xmin conflict)) f
               else put_null f);
          f = attno_incr f;
          f = (if sysid (local_tuple_origin_node conflict) \<noteq> 0
               then put_value (CStringGetTextDatum origin_sysid) f
               else put_null f);
          f = attno_incr f;
          f = form_error_columns sv conflict object_schema_attno object_name_attno f;
          f = (if sysid (remote_node conflict) \<noteq> 0
               then put_value (ObjectIdGetDatum (timeline (remote_node conflict))) f
               else put_null f);
          f = attno_incr f;
          f = (if sysid (remote_node conflict) \<noteq> 0
               then put_value (ObjectIdGetDatum (dboid (remote_node conflict))) f
               else put_null f);
          f = attno_incr f;
          f = (if sysid (local_tuple_origin_node conflict) \<noteq> 0
               then put_value (ObjectIdGetDatum (timeline (local_tuple_origin_node conflict))) f
               else put_null f);
          f = attno_incr f;
          f = (if sysid (local_tuple_origin_node conflict) \<noteq> 0
               then put_value (ObjectIdGetDatum (dboid (local_tuple_origin_node conflict))) f
               else put_null f);
          f = attno_incr f;
          f = (if local_commit_time conflict = 0
               then put_null f
               else put_value (TimestampTzGetDatum (local_commit_time conflict)) f);
          f = attno_incr f
      in f)"

text \<open>
  Index maintenance after the insert (\<open>bdr_executor.c\<close>). A heap-only tuple needs none;
  otherwise \<open>ExecInsertIndexTuples\<close> runs when the relation has indexes, and an index it
  wants rechecked is an error.
\<close>

definition UserTableUpdateOpenIndexes ::
  "services \<Rightarrow> nat \<Rightarrow> bool \<Rightarrow> history_row \<Rightarrow> error + unit" where
  "UserTableUpdateOpenIndexes sv ri_NumIndices HeapTupleIsHeapOnly tuple =
     (if HeapTupleIsHeapOnly then Inr ()
      else if ri_NumIndices > 0
      then (case ExecInsertIndexTuples sv tuple of
              Inl e \<Rightarrow> Inl e
            | Inr recheckIndexes \<Rightarrow>
                if recheckIndexes \<noteq> []
                then Inl (ERROR ''bdr doesn't support index rechecks'')
                else Inr ())
      else Inr ())"

definition UserTableUpdateIndexes ::
  "services \<Rightarrow> nat \<Rightarrow> bool \<Rightarrow> history_row \<Rightarrow> error + unit" where
  "UserTableUpdateIndexes sv num_indices HeapTupleIsHeapOnly tuple =
     (if HeapTupleIsHeapOnly then Inr ()
      else UserTableUpdateOpenIndexes sv num_indices HeapTupleIsHeapOnly tuple)"

text \<open>\<open>heap_form_tuple(RelationGetDescr(log_rel), values, nulls)\<close>.\<close>

definition heap_form_tuple :: "tuple_form \<Rightarrow> history_row" where
  "heap_form_tuple f = (case f of (vs, ns, attno) \<Rightarrow> (vs, ns))"

definition simple_heap_insert :: "history_row \<Rightarrow> backend \<Rightarrow> backend" where
  "simple_heap_insert log_tup st = st\<lparr> bdr_conflict_history := bdr_conflict_history st @ [log_tup] \<rparr>"

text \<open>
  The whole function. A raised error leaves through \<open>Inl\<close> and carries no state: the
  transaction it aborts takes the inserted row with it (that the sequence stays advanced
  after an abort is not followed on that path). The freshly formed tuple is not
  heap-only. \<open>object_schema_attno\<close> and \<open>object_name_attno\<close> are the values \<open>attno\<close>
  has at source lines 410 and 413, which are 5 and 6.
\<close>

definition bdr_conflict_log_table :: "services \<Rightarrow> backend \<Rightarrow> BdrApplyConflict \<Rightarrow> error + backend" where
  "bdr_conflict_log_table sv st conflict =
     (let myid = bdr_make_my_nodeid sv
      in if IsAbortedTransactionBlockState st
         then Inl (ERROR ''bdr: attempt to log conflict in aborted transaction'')
         else if \<not> IsTransactionState st
         then Inl (ERROR ''bdr: attempt to log conflict without surrounding transaction'')
         else if \<not> bdr_log_conflicts_to_table st
         then Inr st
         else
          (let local_sysid = snprintf_u64 SYSID_DIGITS (sysid myid);
               remote_sysid = snprintf_u64 SYSID_DIGITS (sysid (remote_node conflict));
               origin_sysid =
                 (if sysid (local_tuple_origin_node conflict) \<noteq> 0
                  then snprintf_u64 SYSID_DIGITS (sysid (local_tuple_origin_node conflict))
                  else []);
               f = (replicate BDR_CONFLICT_HISTORY_COLS Datum_0,
                    replicate BDR_CONFLICT_HISTORY_COLS False, 0);
               (seqval, st) = nextval_oid (BdrConflictHistorySeqId st) st;
               f = form_leading_columns conflict seqval local_sysid remote_sysid f;
               object_schema_attno = 5;
               object_name_attno = 6
           in case form_conflict_columns sv st conflict f of
                Inl e \<Rightarrow> Inl e
              | Inr f \<Rightarrow>
                 (let f = form_trailing_columns sv conflict origin_sysid
                            object_schema_attno object_name_attno f;
                      log_tup = heap_form_tuple f;
                      st = simple_heap_insert log_tup st
                  in case UserTableUpdateIndexes sv (history_num_indices st) False log_tup of
                       Inl e \<Rightarrow> Inl e
                     | Inr u \<Rightarrow> Inr st)))"

section \<open>Looking up the local row (\<open>find_pkey_tuple\<close>, \<open>bdr_executor.c\<close>)\<close>

definition TransactionIdIsValid :: "TransactionId \<Rightarrow> bool" where
  "TransactionIdIsValid xid = (xid \<noteq> InvalidTransactionId)"

datatype TM_Result =
    TM_Ok | TM_Invisible | TM_SelfModified | TM_Updated | TM_Deleted
  | TM_BeingModified | TM_WouldBlock

fun TM_Result_code :: "TM_Result \<Rightarrow> nat" where
  "TM_Result_code TM_Ok = 0"
| "TM_Result_code TM_Invisible = 1"
| "TM_Result_code TM_SelfModified = 2"
| "TM_Result_code TM_Updated = 3"
| "TM_Result_code TM_Deleted = 4"
| "TM_Result_code TM_BeingModified = 5"
| "TM_Result_code TM_WouldBlock = 6"

text \<open>
  The storage the lookup runs against changes under it, by other backends. It is a state
  \<open>'w\<close> of any type with the three calls whose outcome the lookup depends on:
  \<open>index_getnext_slot\<close> yields the tuple the scan finds, if any, and the \<open>xmin\<close> and
  \<open>xmax\<close> the dirty snapshot holds after the visibility test; \<open>XactLockTableWait\<close>
  returns once the transaction has ended; \<open>heap_lock_tuple\<close> yields its result code.
\<close>

record 'w heap_access =
  index_getnext_slot :: "'w \<Rightarrow> (HeapTupleData option \<times> TransactionId \<times> TransactionId) \<times> 'w"
  XactLockTableWait :: "TransactionId \<Rightarrow> 'w \<Rightarrow> 'w"
  heap_lock_tuple :: "HeapTupleData \<Rightarrow> 'w \<Rightarrow> TM_Result \<times> 'w"

text \<open>What the lookup does to the index and the heap, in the order it does it.\<close>

datatype scan_event =
    Call_index_beginscan
  | Call_index_rescan
  | Call_index_getnext_slot
  | Call_XactLockTableWait TransactionId
  | Call_index_endscan
  | Call_heap_lock_tuple
  | Log_concurrent_update_retrying

text \<open>
  The body between \<open>retry:\<close> and \<open>return found\<close>; each \<open>goto retry\<close> is a recursive
  call. The source puts no bound on the number of retries, so the function is partial:
  \<open>None\<close> is a lookup that retries for ever. The result is \<open>found\<close> with the slot's
  tuple, or the error raised on an unexpected lock result.
\<close>

partial_function (option) find_pkey_tuple ::
  "'w heap_access \<Rightarrow> bool \<Rightarrow> 'w \<Rightarrow> scan_event list \<Rightarrow>
   ((error + bool \<times> HeapTupleData option) \<times> 'w \<times> scan_event list) option" where
  "find_pkey_tuple am lock w tr =
     (let tr = tr @ [Call_index_beginscan, Call_index_rescan];
          (got, w) = index_getnext_slot am w;
          tr = tr @ [Call_index_getnext_slot]
      in case got of (slot, snap_xmin, snap_xmax) \<Rightarrow>
          (case slot of
             None \<Rightarrow> Some (Inr (False, None), w, tr @ [Call_index_endscan])
           | Some tup \<Rightarrow>
              (let xwait = (if TransactionIdIsValid snap_xmin then snap_xmin else snap_xmax)
               in if TransactionIdIsValid xwait
                  then find_pkey_tuple am lock (XactLockTableWait am xwait w)
                         (tr @ [Call_XactLockTableWait xwait, Call_index_endscan])
                  else if lock
                  then (let (res, w) = heap_lock_tuple am tup w;
                            tr = tr @ [Call_heap_lock_tuple]
                        in if res = TM_Ok
                           then Some (Inr (True, Some tup), w, tr @ [Call_index_endscan])
                           else if res = TM_Updated
                           then find_pkey_tuple am lock w
                                  (tr @ [Log_concurrent_update_retrying, Call_index_endscan])
                           else Some (Inl (ERROR (''unexpected TM_Result after locking: '' @
                                                  format_u (TM_Result_code res))), w, tr))
                  else Some (Inr (True, Some tup), w, tr @ [Call_index_endscan]))))"

text \<open>
  A trace restarts from scratch when every wait for a transaction and every reported
  concurrent update in it is followed at once by the end of the running scan and by a
  new \<open>index_beginscan\<close> and \<open>index_rescan\<close>.
\<close>

fun is_retry_cause :: "scan_event \<Rightarrow> bool" where
  "is_retry_cause (Call_XactLockTableWait _) = True"
| "is_retry_cause Log_concurrent_update_retrying = True"
| "is_retry_cause _ = False"

fun restarts_from_scratch :: "scan_event list \<Rightarrow> bool" where
  "restarts_from_scratch [] = True"
| "restarts_from_scratch (e # es) =
     ((is_retry_cause e \<longrightarrow>
         take 3 es = [Call_index_endscan, Call_index_beginscan, Call_index_rescan]) \<and>
      restarts_from_scratch es)"

section \<open>Last update wins\<close>

text \<open>
  Modelled from the spec: the function that decides between the local and the remote
  write is not among the source files; only the two resolutions it yields are (bdr.h).
  The spec (4.3, step 2) compares the commit times, the later one winning; on equal times
  it compares the NodeIds of the two origins in the order system_id, then timeline_id,
  then database_id, and the change from the larger NodeId wins. The spec gives no
  decision for equal times and equal NodeIds, which is \<open>None\<close> here.
\<close>

definition NodeId_less :: "BDRNodeId \<Rightarrow> BDRNodeId \<Rightarrow> bool" where
  "NodeId_less a b =
     (sysid a < sysid b \<or>
      (sysid a = sysid b \<and>
       (timeline a < timeline b \<or> (timeline a = timeline b \<and> dboid a < dboid b))))"

text \<open>
  Modelled from the spec: the decision itself (spec 4.3, step 2), for the commit time and
  origin of the local write and of the remote change. Commit times are \<open>TimestampTz\<close>
  values, compared as signed numbers.
\<close>

definition last_update_wins ::
  "TimestampTz \<Rightarrow> BDRNodeId \<Rightarrow> TimestampTz \<Rightarrow> BDRNodeId \<Rightarrow> BdrConflictResolution option" where
  "last_update_wins local_ts local_origin remote_ts remote_origin =
     (if local_ts <s remote_ts then Some BdrConflictResolution_LastUpdateWins_KeepRemote
      else if remote_ts <s local_ts then Some BdrConflictResolution_LastUpdateWins_KeepLocal
      else if NodeId_less local_origin remote_origin
      then Some BdrConflictResolution_LastUpdateWins_KeepRemote
      else if NodeId_less remote_origin local_origin
      then Some BdrConflictResolution_LastUpdateWins_KeepLocal
      else None)"

section \<open>A small installation to run the functions on\<close>

text \<open>
  Two nodes with system identifiers 5 (the local one) and 9 (the peer, replication origin
  1); a table of row type 16400 with an \<open>int4\<close> and a \<open>text\<close> column; a row type 16500
  whose only column has a type the type cache does not know.
\<close>

definition node5 :: BDRNodeId where
  "node5 = \<lparr> sysid = 5, timeline = 1, dboid = 16384 \<rparr>"

definition node9 :: BDRNodeId where
  "node9 = \<lparr> sysid = 9, timeline = 1, dboid = 16384 \<rparr>"

definition example_services :: services where
  "example_services =
     \<lparr> bdr_make_my_nodeid = node5,
       bdr_fetch_sysid_via_node_id =
         (\<lambda>origin. if origin = 1 then Inr node9 else Inl (ERROR ''unknown replication origin'')),
       bdr_get_my_cached_remote_name = (\<lambda>node. if node = node9 then ''peer'' else ''(none)''),
       get_namespace_name = (\<lambda>nsp. if nsp = 2200 then Some ''public'' else None),
       SearchSysCache_TYPEOID =
         (\<lambda>typid. if typid = 23 then Some ''int4'' else if typid = 25 then Some ''text'' else None),
       getTypeOutputInfo =
         (\<lambda>typid. if typid = 23 then Inr (43, False) else if typid = 25 then Inr (47, True)
                   else Inl (ERROR ''no output function'')),
       OidOutputFunctionCall =
         (\<lambda>typoutput v. case v of Inline str \<Rightarrow> Inr str
                         | ExternalOnDisk p \<Rightarrow> Inl (ERROR ''missing chunk for toast value'')),
       PG_DETOAST_DATUM = (\<lambda>v. v),
       lookup_rowtype_tupdesc =
         (\<lambda>typid typmod.
            if typid = 16400
            then Inr [\<lparr> attname = ''id'', atttypid = 23, attisdropped = False, attnum = 1 \<rparr>,
                      \<lparr> attname = ''note'', atttypid = 25, attisdropped = False, attnum = 2 \<rparr>]
            else if typid = 16500
            then Inr [\<lparr> attname = ''id'', atttypid = 4242, attisdropped = False, attnum = 1 \<rparr>]
            else Inl (ERROR ''type is not composite'')),
       GetSysCacheOid_ENUMTYPOIDNAME =
         (\<lambda>enumtypid label.
            if enumtypid = 17000 \<and> label = ''insert_insert'' then 17001
            else if enumtypid = 17000 \<and> label = ''update_delete'' then 17004
            else if enumtypid = 17100 \<and> label = ''last_update_wins_keep_remote'' then 17104
            else if enumtypid = 17100 \<and> label = ''skip_change'' then 17106
            else InvalidOid),
       row_to_json = (\<lambda>td. Inr ''{}''),
       unpack_sql_state = (\<lambda>code. ''XX000''),
       ExecInsertIndexTuples = (\<lambda>tuple. Inr []) \<rparr>"

definition example_backend :: backend where
  "example_backend =
     \<lparr> bdr_log_conflicts_to_table = True,
       bdr_conflict_logging_include_tuples = True,
       BdrConflictTypeOid = 17000,
       BdrConflictResolutionOid = 17100,
       BdrConflictHistorySeqId = 17200,
       IsTransactionState = True,
       IsAbortedTransactionBlockState = False,
       GetTopTransactionIdIfAny = 731,
       GetXLogInsertRecPtr = 90000,
       GetCurrentTimestamp = 1000000,
       replorigin_session_origin = 1,
       replorigin_session_origin_timestamp = 150,
       replorigin_session_origin_lsn = 4000,
       sequence_last_value = (\<lambda>seq. 0),
       history_num_indices = 1,
       bdr_conflict_history = [],
       server_log = [] \<rparr>"

definition example_tuple :: HeapTupleData where
  "example_tuple =
     \<lparr> t_xmin = 700, t_typeid = 16400, t_typmod = -1,
       t_values = [Some (Inline ''7''), Some (Inline ''seven'')] \<rparr>"

definition unprintable_tuple :: HeapTupleData where
  "unprintable_tuple =
     \<lparr> t_xmin = 701, t_typeid = 16500, t_typmod = -1, t_values = [Some (Inline ''7'')] \<rparr>"

text \<open>
  A storage for the lookup, its state the number of the scan about to run: the first scan
  meets a row whose writer 77 is still in progress, the second finds the row settled but
  the lock reports a concurrent update, the third goes through.
\<close>

definition example_heap :: "nat heap_access" where
  "example_heap =
     \<lparr> index_getnext_slot =
         (\<lambda>n. if n = 0 then ((Some example_tuple, 77, 0), n) else ((Some example_tuple, 0, 0), n)),
       XactLockTableWait = (\<lambda>xid n. n + 1),
       heap_lock_tuple = (\<lambda>tup n. if n = 1 then (TM_Updated, n + 1) else (TM_Ok, n)) \<rparr>"

text \<open>The calls the lookup makes on \<open>example_heap\<close> with locking, from the first scan on.\<close>

definition example_trace :: "scan_event list" where
  "example_trace =
     [Call_index_beginscan, Call_index_rescan, Call_index_getnext_slot,
      Call_XactLockTableWait 77, Call_index_endscan,
      Call_index_beginscan, Call_index_rescan, Call_index_getnext_slot,
      Call_heap_lock_tuple, Log_concurrent_update_retrying, Call_index_endscan,
      Call_index_beginscan, Call_index_rescan, Call_index_getnext_slot,
      Call_heap_lock_tuple, Call_index_endscan]"

section \<open>Reading the tuple under construction\<close>

text \<open>Column \<open>i\<close> of the two arrays, and their lengths.\<close>

definition column_of :: "tuple_form \<Rightarrow> nat \<Rightarrow> Datum \<times> bool" where
  "column_of f i = (case f of (vs, ns, attno) \<Rightarrow> (vs ! i, ns ! i))"

definition widths :: "tuple_form \<Rightarrow> nat \<times> nat" where
  "widths f = (case f of (vs, ns, attno) \<Rightarrow> (length vs, length ns))"

text \<open>
  The record the builder returns for an insert that met the row of \<open>example_tuple\<close>, and
  variations of it: built with tuple logging off, holding a local tuple that cannot be
  printed, and reporting an aborted apply transaction.
\<close>

definition example_relation :: BDRRelation where
  "example_relation = \<lparr> relname = ''t'', relnamespace = 2200 \<rparr>"

definition example_conflict :: BdrApplyConflict where
  "example_conflict =
     \<lparr> local_conflict_txid = 731, local_conflict_lsn = 90000, local_conflict_time = 1000000,
       object_schema = Some ''public'', object_name = Some ''t'',
       remote_node = node9,
       remote_txid = 900, remote_commit_time = 150, remote_commit_lsn = 4000,
       conflict_type = BdrConflictType_InsertInsert,
       conflict_resolution = BdrConflictResolution_LastUpdateWins_KeepRemote,
       local_tuple_null = False, local_tuple = Some example_tuple, local_tuple_xmin = 700,
       local_tuple_origin_node = node5,
       local_commit_time = 100,
       remote_tuple_null = False, remote_tuple = Some example_tuple,
       apply_error = None \<rparr>"

definition redacted_conflict :: BdrApplyConflict where
  "redacted_conflict =
     example_conflict\<lparr> local_tuple := None, remote_tuple_null := True, remote_tuple := None \<rparr>"

definition unprintable_conflict :: BdrApplyConflict where
  "unprintable_conflict = example_conflict\<lparr> local_tuple := Some unprintable_tuple \<rparr>"

definition abort_conflict :: BdrApplyConflict where
  "abort_conflict =
     example_conflict\<lparr> conflict_type := BdrConflictType_UnhandledTxAbort,
                       conflict_resolution := BdrConflictResolution_UnhandledTxAbort \<rparr>"

text \<open>
  What the two sinks write for \<open>example_conflict\<close>: the line in the server log, and the
  row in the history table with the state the insert leaves behind.
\<close>

definition logged_line :: string where
  "logged_line = ''CONFLICT: remote INSERT: row was previously INSERTed at node (none) (5,1,16384,). Resolution: last_update_wins_keep_remote; PKEY: id[int4]:7 note[text]:seven''"



section \<open>Properties of the conflict record builder\<close>

text \<open>The builder run on the example installation, with tuple logging on and off.\<close>

lemma example_conflict_built:
  "bdr_make_apply_conflict example_services example_backend
     BdrConflictType_InsertInsert BdrConflictResolution_LastUpdateWins_KeepRemote 900
     (Some example_relation) (Some example_tuple) InvalidRepOriginId (Some example_tuple) 100 None
   = Inr example_conflict"
  by (simp add: bdr_make_apply_conflict_def Let_def palloc0_BdrApplyConflict_def
      example_services_def example_backend_def example_conflict_def example_relation_def
      InvalidRepOriginId_def ExecFetchSlotHeapTupleDatum_def example_tuple_def)

lemma redacted_conflict_built:
  "bdr_make_apply_conflict example_services
     (example_backend\<lparr> bdr_conflict_logging_include_tuples := False \<rparr>)
     BdrConflictType_InsertInsert BdrConflictResolution_LastUpdateWins_KeepRemote 900
     (Some example_relation) (Some example_tuple) InvalidRepOriginId (Some example_tuple) 100 None
   = Inr redacted_conflict"
  by (simp add: bdr_make_apply_conflict_def Let_def palloc0_BdrApplyConflict_def
      example_services_def example_backend_def example_conflict_def example_relation_def
      InvalidRepOriginId_def ExecFetchSlotHeapTupleDatum_def example_tuple_def redacted_conflict_def)

text \<open>
  Claim C6. Every record the builder returns carries, as \<open>local_conflict_txid\<close>,
  \<open>local_conflict_lsn\<close> and \<open>local_conflict_time\<close>, the top-level transaction id, the
  WAL insert position and the wall-clock time the backend reports at the call, whatever
  commit timestamps were passed in for the local write (\<open>lts\<close>) or are held for the
  remote one (the session's origin timestamp).
\<close>

theorem local_conflict_stamp_is_current:
  assumes "bdr_make_apply_conflict sv st ct res rtxid rel ltup lorigin rtup lts aerr = Inr c"
  shows "local_conflict_txid c = GetTopTransactionIdIfAny st \<and>
         local_conflict_lsn c = GetXLogInsertRecPtr st \<and>
         local_conflict_time c = GetCurrentTimestamp st"
  using assms unfolding bdr_make_apply_conflict_def Let_def
  by (auto split: sum.splits option.splits if_splits)

theorem local_conflict_stamp_is_current_witness:
  "bdr_make_apply_conflict example_services example_backend
     BdrConflictType_InsertInsert BdrConflictResolution_LastUpdateWins_KeepRemote 900
     (Some example_relation) (Some example_tuple) InvalidRepOriginId (Some example_tuple) 100 None
   = Inr example_conflict \<and>
   local_conflict_txid example_conflict = GetTopTransactionIdIfAny example_backend \<and>
   local_conflict_lsn example_conflict = GetXLogInsertRecPtr example_backend \<and>
   local_conflict_time example_conflict = GetCurrentTimestamp example_backend \<and>
   local_conflict_time example_conflict \<noteq> 100 \<and>
   local_conflict_time example_conflict \<noteq> replorigin_session_origin_timestamp example_backend"
  using local_conflict_stamp_is_current [OF example_conflict_built] example_conflict_built
  by (simp add: example_conflict_def example_backend_def)

text \<open>
  Claim C8. With \<open>bdr_conflict_logging_include_tuples\<close> off, the returned record has
  \<open>remote_tuple_null\<close> set and no remote tuple whether or not one was supplied; for a
  supplied local tuple, \<open>local_tuple_null\<close> stays false while \<open>local_tuple\<close> stays
  \<open>(Datum) 0\<close>, so the flag and the stored tuple disagree on the local side only.
\<close>

theorem tuple_redaction_asymmetric:
  assumes "\<not> bdr_conflict_logging_include_tuples st"
    and "bdr_make_apply_conflict sv st ct res rtxid rel ltup lorigin rtup lts aerr = Inr c"
  shows "remote_tuple_null c \<and> remote_tuple c = None \<and>
         (ltup \<noteq> None \<longrightarrow> \<not> local_tuple_null c \<and> local_tuple c = None)"
  using assms unfolding bdr_make_apply_conflict_def Let_def palloc0_BdrApplyConflict_def
  by (auto split: sum.splits option.splits if_splits)

theorem tuple_redaction_asymmetric_witness:
  "\<not> bdr_conflict_logging_include_tuples
       (example_backend\<lparr> bdr_conflict_logging_include_tuples := False \<rparr>) \<and>
   bdr_make_apply_conflict example_services
     (example_backend\<lparr> bdr_conflict_logging_include_tuples := False \<rparr>)
     BdrConflictType_InsertInsert BdrConflictResolution_LastUpdateWins_KeepRemote 900
     (Some example_relation) (Some example_tuple) InvalidRepOriginId (Some example_tuple) 100 None
   = Inr redacted_conflict \<and>
   Some example_tuple \<noteq> None \<and>
   remote_tuple_null redacted_conflict \<and> remote_tuple redacted_conflict = None \<and>
   \<not> local_tuple_null redacted_conflict \<and> local_tuple redacted_conflict = None"
proof -
  have off: "\<not> bdr_conflict_logging_include_tuples
               (example_backend\<lparr> bdr_conflict_logging_include_tuples := False \<rparr>)"
    by simp
  from tuple_redaction_asymmetric [OF off redacted_conflict_built] redacted_conflict_built
  show ?thesis by simp
qed

text \<open>
  Claim C10. Called with \<open>local_tuple_origin_id = InvalidRepOriginId\<close>, the builder
  attributes the local tuple to the local node: \<open>local_tuple_origin_node\<close> of the
  returned record is the local node's own identity.
\<close>

theorem local_origin_defaults_to_local_node:
  assumes "bdr_make_apply_conflict sv st ct res rtxid rel ltup InvalidRepOriginId rtup lts aerr = Inr c"
  shows "local_tuple_origin_node c = bdr_make_my_nodeid sv"
  using assms unfolding bdr_make_apply_conflict_def Let_def
  by (auto split: sum.splits option.splits if_splits)

theorem local_origin_defaults_to_local_node_witness:
  "bdr_make_apply_conflict example_services example_backend
     BdrConflictType_InsertInsert BdrConflictResolution_LastUpdateWins_KeepRemote 900
     (Some example_relation) (Some example_tuple) InvalidRepOriginId (Some example_tuple) 100 None
   = Inr example_conflict \<and>
   local_tuple_origin_node example_conflict = bdr_make_my_nodeid example_services \<and>
   local_tuple_origin_node example_conflict = node5"
  using local_origin_defaults_to_local_node [OF example_conflict_built] example_conflict_built
  by (simp add: example_services_def)




section \<open>Properties of the server-log sink\<close>

text \<open>The sink run on the example installation.\<close>

lemma example_tuple_printed:
  "row_to_stringinfo example_services [] (Some example_tuple) = Inr '' id[int4]:7 note[text]:seven''"
  by (simp add: row_to_stringinfo_def example_tuple_def example_services_def tuple_to_stringinfo_def
      tuple_to_stringinfo_from.simps tuple_to_stringinfo_column_def heap_getattr_def)

lemma node5_printed:
  "BDR_NODEID_FORMAT_WITHNAME example_services node5 = ''(none) (5,1,16384,)''"
  by (simp add: BDR_NODEID_FORMAT_WITHNAME_def example_services_def node5_def node9_def
      format_u.simps digit_char_def)

lemma example_conflict_serverlog:
  "bdr_conflict_log_serverlog example_services example_backend example_conflict =
     Inr (ereport LOG ERRCODE_INTEGRITY_CONSTRAINT_VIOLATION logged_line example_backend)"
proof -
  have c: "local_tuple_null example_conflict = False"
    "local_tuple example_conflict = Some example_tuple"
    "conflict_type example_conflict = BdrConflictType_InsertInsert"
    "conflict_resolution example_conflict = BdrConflictResolution_LastUpdateWins_KeepRemote"
    "local_tuple_origin_node example_conflict = node5"
    by (simp_all add: example_conflict_def)
  have m: "row_exists_message example_services example_conflict
             ''last_update_wins_keep_remote'' '' id[int4]:7 note[text]:seven'' = logged_line"
    by (simp add: row_exists_message_def c CONFLICT_MSG_PREFIX_def node5_printed logged_line_def)
  show ?thesis
    by (simp add: bdr_conflict_log_serverlog_def c example_tuple_printed m)
qed

lemma column_type_cache_failure:
  assumes "\<not> attisdropped attr" and "0 \<le> attnum attr"
    and "SearchSysCache_TYPEOID sv (atttypid attr) = None"
  shows "tuple_to_stringinfo_column sv s attr tuple natt =
         Inl (ERROR (''cache lookup failed for type '' @ format_u (unat (atttypid attr))))"
  using assms by (simp add: tuple_to_stringinfo_column_def)

lemma unprintable_tuple_raises:
  "row_to_stringinfo example_services [] (Some unprintable_tuple)
     = Inl (ERROR ''cache lookup failed for type 4242'')"
  by (simp add: row_to_stringinfo_def unprintable_tuple_def example_services_def
      tuple_to_stringinfo_def tuple_to_stringinfo_from.simps tuple_to_stringinfo_column_def
      format_u.simps digit_char_def)

text \<open>
  Claim C1 as stated does not hold. The function has no handler around the rendering of
  the local tuple: for a record whose local tuple has a column of a type the type cache
  does not know, the error raised by \<open>tuple_to_stringinfo\<close> leaves
  \<open>bdr_conflict_log_serverlog\<close> and reaches the caller.
\<close>

theorem serverlog_error_counterexample:
  "bdr_conflict_log_serverlog example_services example_backend unprintable_conflict
   = Inl (ERROR ''cache lookup failed for type 4242'')"
  by (simp add: bdr_conflict_log_serverlog_def unprintable_conflict_def example_conflict_def
      unprintable_tuple_raises)

text \<open>
  Claim C1, amended. For a record whose null flag and local tuple agree (a record with
  the flag clear holds a tuple), the server-log sink raises exactly the errors that
  rendering the local tuple raises, unchanged; when the local tuple is flagged null or
  its rendering succeeds, the call returns without an error.
\<close>

theorem serverlog_errors_propagate:
  assumes "local_tuple c = None \<longrightarrow> local_tuple_null c"
  shows "bdr_conflict_log_serverlog sv st c = Inl e \<longleftrightarrow>
         (\<not> local_tuple_null c \<and> row_to_stringinfo sv [] (local_tuple c) = Inl e)"
  unfolding bdr_conflict_log_serverlog_def Let_def
  by (auto split: sum.splits BdrConflictType.splits)

theorem serverlog_errors_propagate_witness:
  "local_tuple unprintable_conflict \<noteq> None \<and>
   \<not> local_tuple_null unprintable_conflict \<and>
   row_to_stringinfo example_services [] (local_tuple unprintable_conflict)
     = Inl (ERROR ''cache lookup failed for type 4242'') \<and>
   bdr_conflict_log_serverlog example_services example_backend unprintable_conflict
     = Inl (ERROR ''cache lookup failed for type 4242'')"
proof -
  have a: "local_tuple unprintable_conflict = None \<longrightarrow> local_tuple_null unprintable_conflict"
    by (simp add: unprintable_conflict_def)
  have n: "\<not> local_tuple_null unprintable_conflict"
    by (simp add: unprintable_conflict_def example_conflict_def)
  have r: "row_to_stringinfo example_services [] (local_tuple unprintable_conflict)
            = Inl (ERROR ''cache lookup failed for type 4242'')"
    by (simp add: unprintable_conflict_def unprintable_tuple_raises)
  from serverlog_errors_propagate [OF a, of example_services example_backend
         "ERROR ''cache lookup failed for type 4242''"] n r
  show ?thesis by (simp add: unprintable_conflict_def)
qed

text \<open>
  Claim C4 as stated does not hold. For a record of type \<open>UnhandledTxAbort\<close> the switch
  has an empty case: the call returns with the server log as it was, no line emitted.
\<close>

theorem serverlog_no_line_counterexample:
  "conflict_type abort_conflict = BdrConflictType_UnhandledTxAbort \<and>
   bdr_conflict_log_serverlog example_services example_backend abort_conflict = Inr example_backend"
  by (simp add: bdr_conflict_log_serverlog_def abort_conflict_def example_conflict_def
      example_tuple_printed)

text \<open>
  Claim C4, amended. When the server-log sink returns, it has emitted no line for a
  record of type \<open>UnhandledTxAbort\<close> and exactly one line, at level LOG, for a record of
  any other type. The line names the remote operation (INSERT, UPDATE or DELETE), the
  resolution, and after \<open>PKEY:\<close> the rendering of the columns of the local tuple (empty
  when the local tuple is flagged null). For InsertInsert, InsertUpdate and UpdateUpdate
  it also names how the row was written before and the identity of the node that last
  wrote the local tuple; the identity of the remote node is in no line.
\<close>

theorem serverlog_line:
  assumes "bdr_conflict_log_serverlog sv st c = Inr st'"
  shows "\<exists>s_key.
          (if local_tuple_null c then s_key = []
           else row_to_stringinfo sv [] (local_tuple c) = Inr s_key) \<and>
          (conflict_type c = BdrConflictType_UnhandledTxAbort \<longrightarrow> st' = st) \<and>
          (conflict_type c \<noteq> BdrConflictType_UnhandledTxAbort \<longrightarrow>
            (\<exists>msg. st' = ereport LOG ERRCODE_INTEGRITY_CONSTRAINT_VIOLATION msg st \<and>
              server_log st' = server_log st @
                 [\<lparr> entry_level = LOG, entry_errcode = ERRCODE_INTEGRITY_CONSTRAINT_VIOLATION,
                    errmsg = msg \<rparr>] \<and>
              (conflict_type c = BdrConflictType_InsertInsert \<longrightarrow>
                 msg = ''CONFLICT: remote INSERT: row was previously INSERTed at node '' @
                       BDR_NODEID_FORMAT_WITHNAME sv (local_tuple_origin_node c) @
                       ''. Resolution: '' @
                       bdr_conflict_resolution_get_name (conflict_resolution c) @
                       ''; PKEY:'' @ s_key) \<and>
              (conflict_type c = BdrConflictType_InsertUpdate \<longrightarrow>
                 msg = ''CONFLICT: remote INSERT: row was previously UPDATEd at node '' @
                       BDR_NODEID_FORMAT_WITHNAME sv (local_tuple_origin_node c) @
                       ''. Resolution: '' @
                       bdr_conflict_resolution_get_name (conflict_resolution c) @
                       ''; PKEY:'' @ s_key) \<and>
              (conflict_type c = BdrConflictType_UpdateUpdate \<longrightarrow>
                 msg = ''CONFLICT: remote UPDATE: row was previously UPDATEd at node '' @
                       BDR_NODEID_FORMAT_WITHNAME sv (local_tuple_origin_node c) @
                       ''. Resolution: '' @
                       bdr_conflict_resolution_get_name (conflict_resolution c) @
                       ''; PKEY:'' @ s_key) \<and>
              (conflict_type c = BdrConflictType_UpdateDelete \<longrightarrow>
                 msg = ''CONFLICT: remote UPDATE: could not find existing row. Resolution: '' @
                       bdr_conflict_resolution_get_name (conflict_resolution c) @
                       ''; PKEY:'' @ s_key) \<and>
              (conflict_type c = BdrConflictType_DeleteDelete \<longrightarrow>
                 msg = ''CONFLICT: remote DELETE: could not find existing row. Resolution: '' @
                       bdr_conflict_resolution_get_name (conflict_resolution c) @
                       ''; PKEY:'' @ s_key)))"
proof -
  obtain s_key where k: "(if \<not> local_tuple_null c
                          then row_to_stringinfo sv [] (local_tuple c) else Inr []) = Inr s_key"
    using assms by (auto simp add: bdr_conflict_log_serverlog_def split: sum.splits)
  have one: "server_log (ereport lev code msg st) =
             server_log st @ [\<lparr> entry_level = lev, entry_errcode = code, errmsg = msg \<rparr>]"
    for lev code msg
    by (simp add: ereport_def)
  from assms k have "
          (conflict_type c = BdrConflictType_UnhandledTxAbort \<longrightarrow> st' = st) \<and>
          (conflict_type c \<noteq> BdrConflictType_UnhandledTxAbort \<longrightarrow>
            (\<exists>msg. st' = ereport LOG ERRCODE_INTEGRITY_CONSTRAINT_VIOLATION msg st \<and>
              server_log st' = server_log st @
                 [\<lparr> entry_level = LOG, entry_errcode = ERRCODE_INTEGRITY_CONSTRAINT_VIOLATION,
                    errmsg = msg \<rparr>] \<and>
              (conflict_type c = BdrConflictType_InsertInsert \<longrightarrow>
                 msg = ''CONFLICT: remote INSERT: row was previously INSERTed at node '' @
                       BDR_NODEID_FORMAT_WITHNAME sv (local_tuple_origin_node c) @
                       ''. Resolution: '' @
                       bdr_conflict_resolution_get_name (conflict_resolution c) @
                       ''; PKEY:'' @ s_key) \<and>
              (conflict_type c = BdrConflictType_InsertUpdate \<longrightarrow>
                 msg = ''CONFLICT: remote INSERT: row was previously UPDATEd at node '' @
                       BDR_NODEID_FORMAT_WITHNAME sv (local_tuple_origin_node c) @
                       ''. Resolution: '' @
                       bdr_conflict_resolution_get_name (conflict_resolution c) @
                       ''; PKEY:'' @ s_key) \<and>
              (conflict_type c = BdrConflictType_UpdateUpdate \<longrightarrow>
                 msg = ''CONFLICT: remote UPDATE: row was previously UPDATEd at node '' @
                       BDR_NODEID_FORMAT_WITHNAME sv (local_tuple_origin_node c) @
                       ''. Resolution: '' @
                       bdr_conflict_resolution_get_name (conflict_resolution c) @
                       ''; PKEY:'' @ s_key) \<and>
              (conflict_type c = BdrConflictType_UpdateDelete \<longrightarrow>
                 msg = ''CONFLICT: remote UPDATE: could not find existing row. Resolution: '' @
                       bdr_conflict_resolution_get_name (conflict_resolution c) @
                       ''; PKEY:'' @ s_key) \<and>
              (conflict_type c = BdrConflictType_DeleteDelete \<longrightarrow>
                 msg = ''CONFLICT: remote DELETE: could not find existing row. Resolution: '' @
                       bdr_conflict_resolution_get_name (conflict_resolution c) @
                       ''; PKEY:'' @ s_key)))"
    by (cases "conflict_type c")
       (auto simp add: bdr_conflict_log_serverlog_def one row_exists_message_def
          row_missing_message_def CONFLICT_MSG_PREFIX_def)
  moreover from k have "if local_tuple_null c then s_key = []
           else row_to_stringinfo sv [] (local_tuple c) = Inr s_key"
    by (auto split: if_splits)
  ultimately show ?thesis by blast
qed

theorem serverlog_line_witness:
  "bdr_conflict_log_serverlog example_services example_backend example_conflict =
     Inr (ereport LOG ERRCODE_INTEGRITY_CONSTRAINT_VIOLATION logged_line example_backend) \<and>
   conflict_type example_conflict = BdrConflictType_InsertInsert \<and>
   \<not> local_tuple_null example_conflict \<and>
   row_to_stringinfo example_services [] (local_tuple example_conflict)
     = Inr '' id[int4]:7 note[text]:seven'' \<and>
   server_log (ereport LOG ERRCODE_INTEGRITY_CONSTRAINT_VIOLATION logged_line example_backend) =
     server_log example_backend @
       [\<lparr> entry_level = LOG, entry_errcode = ERRCODE_INTEGRITY_CONSTRAINT_VIOLATION,
          errmsg = logged_line \<rparr>] \<and>
   logged_line =
     ''CONFLICT: remote INSERT: row was previously INSERTed at node '' @
     BDR_NODEID_FORMAT_WITHNAME example_services (local_tuple_origin_node example_conflict) @
     ''. Resolution: '' @
     bdr_conflict_resolution_get_name (conflict_resolution example_conflict) @
     ''; PKEY:'' @ '' id[int4]:7 note[text]:seven''"
proof -
  have c: "local_tuple_null example_conflict = False"
    "local_tuple example_conflict = Some example_tuple"
    "conflict_type example_conflict = BdrConflictType_InsertInsert"
    "conflict_resolution example_conflict = BdrConflictResolution_LastUpdateWins_KeepRemote"
    "local_tuple_origin_node example_conflict = node5"
    by (simp_all add: example_conflict_def)
  have m: "logged_line =
     ''CONFLICT: remote INSERT: row was previously INSERTed at node '' @
     BDR_NODEID_FORMAT_WITHNAME example_services (local_tuple_origin_node example_conflict) @
     ''. Resolution: '' @
     bdr_conflict_resolution_get_name (conflict_resolution example_conflict) @
     ''; PKEY:'' @ '' id[int4]:7 note[text]:seven''"
    by (simp add: c node5_printed logged_line_def)
  have l: "server_log (ereport LOG ERRCODE_INTEGRITY_CONSTRAINT_VIOLATION logged_line example_backend) =
     server_log example_backend @
       [\<lparr> entry_level = LOG, entry_errcode = ERRCODE_INTEGRITY_CONSTRAINT_VIOLATION,
          errmsg = logged_line \<rparr>]"
    by (simp add: ereport_def)
  from serverlog_line [OF example_conflict_serverlog]
  have "\<exists>s_key. row_to_stringinfo example_services [] (local_tuple example_conflict) = Inr s_key"
    unfolding c by (elim exE conjE) (rule exI, simp)
  with m l example_conflict_serverlog c example_tuple_printed show ?thesis by simp
qed

section \<open>Properties of the table sink\<close>

text \<open>
  How the steps that fill the tuple act on the running column number, on the length of
  the arrays and on the columns they do not write.
\<close>

named_theorems form_simps

lemma attno_of_ops [form_simps]:
  "attno_of (put_value d f) = attno_of f"
  "attno_of (put_null f) = attno_of f"
  "attno_of (put_column d b f) = attno_of f"
  "attno_of (attno_incr f) = attno_of f + 1"
  "attno_of (attno_add n f) = attno_of f + n"
  "attno_of (bdr_conflict_strtodatum idx s f) = attno_of f"
  "attno_of (memset_nulls n f) = attno_of f"
  "attno_of (if b then g else h) = (if b then attno_of g else attno_of h)"
  "attno_of (vs, ns, a) = a"
  by (cases f; simp add: attno_of_def put_value_def put_null_def attno_incr_def attno_add_def
      put_column_def bdr_conflict_strtodatum_def memset_nulls_def split: option.splits)+

lemma widths_ops [form_simps]:
  "widths (put_value d f) = widths f"
  "widths (put_null f) = widths f"
  "widths (put_column d b f) = widths f"
  "widths (attno_incr f) = widths f"
  "widths (attno_add n f) = widths f"
  "widths (bdr_conflict_strtodatum idx s f) = widths f"
  "widths (if b then g else h) = (if b then widths g else widths h)"
  "widths (vs, ns, a) = (length vs, length ns)"
  by (cases f; simp add: widths_def put_value_def put_null_def attno_incr_def attno_add_def
      put_column_def bdr_conflict_strtodatum_def split: option.splits)+

lemma widths_memset_nulls [form_simps]:
  "attno_of f + n \<le> snd (widths f) \<Longrightarrow> widths (memset_nulls n f) = widths f"
  by (cases f) (simp add: widths_def memset_nulls_def attno_of_def)

lemma column_of_ops [form_simps]:
  "i \<noteq> attno_of f \<Longrightarrow> column_of (put_value d f) i = column_of f i"
  "i \<noteq> attno_of f \<Longrightarrow> column_of (put_null f) i = column_of f i"
  "i \<noteq> attno_of f \<Longrightarrow> column_of (put_column d b f) i = column_of f i"
  "column_of (attno_incr f) i = column_of f i"
  "column_of (attno_add n f) i = column_of f i"
  "i \<noteq> idx \<Longrightarrow> column_of (bdr_conflict_strtodatum idx s f) i = column_of f i"
  "column_of (if b then g else h) i = (if b then column_of g i else column_of h i)"
  by (cases f; simp add: column_of_def put_value_def put_null_def attno_incr_def attno_of_def
      attno_add_def put_column_def bdr_conflict_strtodatum_def split: option.splits)+

lemma column_of_memset_nulls [form_simps]:
  "i < attno_of f \<Longrightarrow> i < snd (widths f) \<Longrightarrow> column_of (memset_nulls n f) i = column_of f i"
  by (cases f) (simp add: column_of_def memset_nulls_def attno_of_def widths_def nth_append)

lemma column_of_put_value_here [form_simps]:
  "snd (column_of (put_value d f) i) = snd (column_of f i)"
  "i = attno_of f \<Longrightarrow> i < fst (widths f) \<Longrightarrow> fst (column_of (put_value d f) i) = d"
  by (cases f; simp add: column_of_def put_value_def attno_of_def widths_def)+







lemma form_error_columns_widths:
  "attno_of f + 13 \<le> snd (widths f) \<Longrightarrow> widths (form_error_columns sv c 5 6 f) = widths f"
  by (simp add: form_error_columns_def Let_def form_simps split: option.splits)




text \<open>
  The two enum columns hold the catalog's value for the label of the record's field, and
  distinct fields have distinct labels.
\<close>

lemma bdr_conflict_type_name_inj:
  "bdr_conflict_type_name a = bdr_conflict_type_name b \<Longrightarrow> a = b"
  by (cases a; cases b) simp_all

lemma bdr_conflict_resolution_get_name_inj:
  "bdr_conflict_resolution_get_name a = bdr_conflict_resolution_get_name b \<Longrightarrow> a = b"
  by (cases a; cases b) simp_all


lemma log_table_enabled:
  assumes "bdr_conflict_log_table sv st c = Inr st'" and "bdr_log_conflicts_to_table st"
  shows "\<exists>g. form_conflict_columns sv (snd (nextval_oid (BdrConflictHistorySeqId st) st)) c
                (form_leading_columns c (fst (nextval_oid (BdrConflictHistorySeqId st) st))
                     (snprintf_u64 SYSID_DIGITS (sysid (bdr_make_my_nodeid sv)))
                     (snprintf_u64 SYSID_DIGITS (sysid (remote_node c)))
                     (replicate BDR_CONFLICT_HISTORY_COLS Datum_0,
                      replicate BDR_CONFLICT_HISTORY_COLS False, 0)) = Inr g \<and>
               bdr_conflict_history st' = bdr_conflict_history st @
                 [heap_form_tuple (form_trailing_columns sv c
                          (if sysid (local_tuple_origin_node c) \<noteq> 0
                           then snprintf_u64 SYSID_DIGITS (sysid (local_tuple_origin_node c))
                           else []) 5 6 g)]"
  using assms
  by (auto simp add: bdr_conflict_log_table_def Let_def simple_heap_insert_def nextval_oid_def
      case_prod_beta split: if_splits sum.splits)








text \<open>
  Claim C9. The table sink raises an error when called in an aborted transaction and
  when called outside any transaction, whatever \<open>bdr_log_conflicts_to_table\<close> is, because
  both tests come before the test of the flag. It returns without having done anything
  exactly when a live transaction is active and the flag is off.
\<close>

theorem log_table_transaction_checks_first:
  "(IsAbortedTransactionBlockState st \<longrightarrow>
      bdr_conflict_log_table sv st c =
        Inl (ERROR ''bdr: attempt to log conflict in aborted transaction'')) \<and>
   (\<not> IsAbortedTransactionBlockState st \<and> \<not> IsTransactionState st \<longrightarrow>
      bdr_conflict_log_table sv st c =
        Inl (ERROR ''bdr: attempt to log conflict without surrounding transaction'')) \<and>
   (bdr_conflict_log_table sv st c = Inr st \<longleftrightarrow>
      \<not> IsAbortedTransactionBlockState st \<and> IsTransactionState st \<and>
      \<not> bdr_log_conflicts_to_table st)"
proof -
  have aborted: "bdr_conflict_log_table sv st c =
        Inl (ERROR ''bdr: attempt to log conflict in aborted transaction'')"
    if "IsAbortedTransactionBlockState st"
    using that by (simp add: bdr_conflict_log_table_def)
  have outside: "bdr_conflict_log_table sv st c =
        Inl (ERROR ''bdr: attempt to log conflict without surrounding transaction'')"
    if "\<not> IsAbortedTransactionBlockState st" "\<not> IsTransactionState st"
    using that by (simp add: bdr_conflict_log_table_def)
  have noop: "bdr_conflict_log_table sv st c = Inr st"
    if "\<not> IsAbortedTransactionBlockState st" "IsTransactionState st"
       "\<not> bdr_log_conflicts_to_table st"
    using that by (simp add: bdr_conflict_log_table_def)
  have only: "\<not> IsAbortedTransactionBlockState st \<and> IsTransactionState st \<and>
              \<not> bdr_log_conflicts_to_table st"
    if r: "bdr_conflict_log_table sv st c = Inr st"
  proof -
    have "\<not> bdr_log_conflicts_to_table st"
    proof
      assume "bdr_log_conflicts_to_table st"
      from log_table_enabled [OF r this] show False by auto
    qed
    moreover have "\<not> IsAbortedTransactionBlockState st"
      using r aborted by auto
    moreover have "IsTransactionState st"
      using r aborted outside by auto
    ultimately show ?thesis by simp
  qed
  from aborted outside noop only show ?thesis by blast
qed

theorem log_table_transaction_checks_first_witness:
  "\<not> bdr_log_conflicts_to_table
       (example_backend\<lparr> bdr_log_conflicts_to_table := False,
                         IsAbortedTransactionBlockState := True \<rparr>) \<and>
   IsAbortedTransactionBlockState
       (example_backend\<lparr> bdr_log_conflicts_to_table := False,
                         IsAbortedTransactionBlockState := True \<rparr>) \<and>
   bdr_conflict_log_table example_services
       (example_backend\<lparr> bdr_log_conflicts_to_table := False,
                         IsAbortedTransactionBlockState := True \<rparr>) example_conflict
     = Inl (ERROR ''bdr: attempt to log conflict in aborted transaction'') \<and>
   \<not> bdr_log_conflicts_to_table
       (example_backend\<lparr> bdr_log_conflicts_to_table := False, IsTransactionState := False \<rparr>) \<and>
   \<not> IsTransactionState
       (example_backend\<lparr> bdr_log_conflicts_to_table := False, IsTransactionState := False \<rparr>) \<and>
   bdr_conflict_log_table example_services
       (example_backend\<lparr> bdr_log_conflicts_to_table := False, IsTransactionState := False \<rparr>)
       example_conflict
     = Inl (ERROR ''bdr: attempt to log conflict without surrounding transaction'') \<and>
   IsTransactionState (example_backend\<lparr> bdr_log_conflicts_to_table := False \<rparr>) \<and>
   bdr_conflict_log_table example_services
       (example_backend\<lparr> bdr_log_conflicts_to_table := False \<rparr>) example_conflict
     = Inr (example_backend\<lparr> bdr_log_conflicts_to_table := False \<rparr>)"
  using log_table_transaction_checks_first
          [of "example_backend\<lparr> bdr_log_conflicts_to_table := False,
                               IsAbortedTransactionBlockState := True \<rparr>"
              example_services example_conflict]
        log_table_transaction_checks_first
          [of "example_backend\<lparr> bdr_log_conflicts_to_table := False,
                               IsTransactionState := False \<rparr>"
              example_services example_conflict]
        log_table_transaction_checks_first
          [of "example_backend\<lparr> bdr_log_conflicts_to_table := False \<rparr>"
              example_services example_conflict]
  by (simp add: example_backend_def)









section \<open>Properties of the local row lookup\<close>

text \<open>
  Every trace the lookup returns with extends the trace it started with by a scan begun
  anew and by calls that restart from scratch; and the three ways one turn of the loop
  can go on a found row.
\<close>

lemma find_pkey_tuple_trace:
  assumes "find_pkey_tuple am lock w tr = Some y"
  shows "\<exists>t. snd (snd y) = tr @ Call_index_beginscan # Call_index_rescan # t \<and>
       restarts_from_scratch t"
  using assms
proof (induction am lock w tr y rule: find_pkey_tuple.raw_induct [rotated, consumes 1, case_names step])
  case (step f am lock w tr y)
  obtain slot snap_xmin snap_xmax w1 where
    g: "index_getnext_slot am w = ((slot, snap_xmin, snap_xmax), w1)"
    by (metis prod_cases3 surj_pair)
  show ?case
  proof (cases slot)
    case None
    with step.hyps g have "snd (snd y) = tr @ [Call_index_beginscan, Call_index_rescan,
        Call_index_getnext_slot, Call_index_endscan]"
      by (auto simp add: Let_def)
    then show ?thesis by simp
  next
    case (Some tup)
    define xwait where "xwait = (if TransactionIdIsValid snap_xmin then snap_xmin else snap_xmax)"
    show ?thesis
    proof (cases "TransactionIdIsValid xwait")
      case True
      with step.hyps g Some
      have "f am lock (XactLockTableWait am xwait w1)
              (tr @ [Call_index_beginscan, Call_index_rescan, Call_index_getnext_slot,
                     Call_XactLockTableWait xwait, Call_index_endscan]) = Some y"
        by (simp add: Let_def xwait_def)
      with step.IH obtain t where
        "snd (snd y) = (tr @ [Call_index_beginscan, Call_index_rescan, Call_index_getnext_slot,
                     Call_XactLockTableWait xwait, Call_index_endscan]) @
                     Call_index_beginscan # Call_index_rescan # t"
        and "restarts_from_scratch t"
        by blast
      then show ?thesis
        by (intro exI [of _ "Call_index_getnext_slot # Call_XactLockTableWait xwait #
              Call_index_endscan # Call_index_beginscan # Call_index_rescan # t"]) simp
    next
      case False
      note no_wait = False
      show ?thesis
      proof (cases lock)
        case False
        with step.hyps g Some no_wait
        have "snd (snd y) = tr @ [Call_index_beginscan, Call_index_rescan,
            Call_index_getnext_slot, Call_index_endscan]"
          by (auto simp add: Let_def xwait_def)
        then show ?thesis by simp
      next
        case True
        obtain res w2 where l: "heap_lock_tuple am tup w1 = (res, w2)"
          by (cases "heap_lock_tuple am tup w1")
        show ?thesis
        proof (cases "res = TM_Updated")
          case True
          with step.hyps g Some no_wait \<open>lock\<close> l
          have "f am lock w2
                  (tr @ [Call_index_beginscan, Call_index_rescan, Call_index_getnext_slot,
                         Call_heap_lock_tuple, Log_concurrent_update_retrying,
                         Call_index_endscan]) = Some y"
            by (simp add: Let_def xwait_def)
          with step.IH obtain t where
            "snd (snd y) = (tr @ [Call_index_beginscan, Call_index_rescan, Call_index_getnext_slot,
                         Call_heap_lock_tuple, Log_concurrent_update_retrying,
                         Call_index_endscan]) @ Call_index_beginscan # Call_index_rescan # t"
            and "restarts_from_scratch t"
            by blast
          then show ?thesis
            by (intro exI [of _ "Call_index_getnext_slot # Call_heap_lock_tuple #
                  Log_concurrent_update_retrying # Call_index_endscan #
                  Call_index_beginscan # Call_index_rescan # t"]) simp
        next
          case False
          with step.hyps g Some no_wait \<open>lock\<close> l
          have "snd (snd y) = tr @ [Call_index_beginscan, Call_index_rescan,
                  Call_index_getnext_slot, Call_heap_lock_tuple, Call_index_endscan] \<or>
                snd (snd y) = tr @ [Call_index_beginscan, Call_index_rescan,
                  Call_index_getnext_slot, Call_heap_lock_tuple]"
            by (auto simp add: Let_def xwait_def split: if_splits)
          then show ?thesis by auto
        qed
      qed
    qed
  qed
qed

lemma find_pkey_tuple_retry_after_wait:
  assumes "index_getnext_slot am w = ((Some tup, snap_xmin, snap_xmax), w1)"
    and "xwait = (if TransactionIdIsValid snap_xmin then snap_xmin else snap_xmax)"
    and "TransactionIdIsValid xwait"
  shows "find_pkey_tuple am lock w tr =
         find_pkey_tuple am lock (XactLockTableWait am xwait w1)
           (tr @ [Call_index_beginscan, Call_index_rescan, Call_index_getnext_slot,
                  Call_XactLockTableWait xwait, Call_index_endscan])"
  using assms by (subst find_pkey_tuple.simps) (simp add: Let_def)

lemma find_pkey_tuple_retry_after_concurrent_update:
  assumes "index_getnext_slot am w = ((Some tup, snap_xmin, snap_xmax), w1)"
    and "\<not> TransactionIdIsValid snap_xmin" and "\<not> TransactionIdIsValid snap_xmax"
    and "heap_lock_tuple am tup w1 = (TM_Updated, w2)"
  shows "find_pkey_tuple am True w tr =
         find_pkey_tuple am True w2
           (tr @ [Call_index_beginscan, Call_index_rescan, Call_index_getnext_slot,
                  Call_heap_lock_tuple, Log_concurrent_update_retrying, Call_index_endscan])"
  using assms by (subst find_pkey_tuple.simps) (simp add: Let_def)

lemma find_pkey_tuple_locked:
  assumes "index_getnext_slot am w = ((Some tup, snap_xmin, snap_xmax), w1)"
    and "\<not> TransactionIdIsValid snap_xmin" and "\<not> TransactionIdIsValid snap_xmax"
    and "heap_lock_tuple am tup w1 = (TM_Ok, w2)"
  shows "find_pkey_tuple am True w tr =
         Some (Inr (True, Some tup), w2,
           tr @ [Call_index_beginscan, Call_index_rescan, Call_index_getnext_slot,
                  Call_heap_lock_tuple, Call_index_endscan])"
  using assms by (subst find_pkey_tuple.simps) (simp add: Let_def)

lemma example_lookup:
  "find_pkey_tuple example_heap True (0::nat) [] = Some (Inr (True, Some example_tuple), 2, example_trace)"
proof -
  have 1: "find_pkey_tuple example_heap True (0::nat) [] =
           find_pkey_tuple example_heap True (1::nat)
             [Call_index_beginscan, Call_index_rescan, Call_index_getnext_slot,
              Call_XactLockTableWait 77, Call_index_endscan]"
    by (subst find_pkey_tuple_retry_after_wait [where tup = example_tuple and snap_xmin = 77
          and snap_xmax = 0 and ?w1.0 = 0 and xwait = 77])
       (simp_all add: example_heap_def TransactionIdIsValid_def InvalidTransactionId_def)
  have 2: "find_pkey_tuple example_heap True (1::nat)
             [Call_index_beginscan, Call_index_rescan, Call_index_getnext_slot,
              Call_XactLockTableWait 77, Call_index_endscan] =
           find_pkey_tuple example_heap True (2::nat)
             [Call_index_beginscan, Call_index_rescan, Call_index_getnext_slot,
              Call_XactLockTableWait 77, Call_index_endscan,
              Call_index_beginscan, Call_index_rescan, Call_index_getnext_slot,
              Call_heap_lock_tuple, Log_concurrent_update_retrying, Call_index_endscan]"
    by (subst find_pkey_tuple_retry_after_concurrent_update [where tup = example_tuple
          and snap_xmin = 0 and snap_xmax = 0 and ?w1.0 = 1 and ?w2.0 = 2])
       (simp_all add: example_heap_def TransactionIdIsValid_def InvalidTransactionId_def)
  have 3: "find_pkey_tuple example_heap True (2::nat)
             [Call_index_beginscan, Call_index_rescan, Call_index_getnext_slot,
              Call_XactLockTableWait 77, Call_index_endscan,
              Call_index_beginscan, Call_index_rescan, Call_index_getnext_slot,
              Call_heap_lock_tuple, Log_concurrent_update_retrying, Call_index_endscan] =
           Some (Inr (True, Some example_tuple), 2, example_trace)"
    by (subst find_pkey_tuple_locked [where tup = example_tuple
          and snap_xmin = 0 and snap_xmax = 0 and ?w1.0 = 2 and ?w2.0 = 2])
       (simp_all add: example_heap_def TransactionIdIsValid_def InvalidTransactionId_def
          example_trace_def)
  from 1 2 3 show ?thesis by simp
qed

text \<open>
  Claim C5. When the scan finds a row whose writer is still in progress, the lookup
  waits for that transaction and then is the lookup started afresh on the storage as the
  wait left it: the running scan is ended and a new \<open>index_beginscan\<close> and
  \<open>index_rescan\<close> come first. The same holds when locking the found tuple reports a
  concurrent update. So in every trace the lookup returns with, each wait and each
  reported concurrent update is followed at once by the end of the scan and the start of
  a new one; no result is returned in between.
\<close>

theorem find_pkey_tuple_restarts_from_scratch:
  "(index_getnext_slot am w = ((Some tup, snap_xmin, snap_xmax), w1) \<and>
    xwait = (if TransactionIdIsValid snap_xmin then snap_xmin else snap_xmax) \<and>
    TransactionIdIsValid xwait \<longrightarrow>
      find_pkey_tuple am lock w tr =
      find_pkey_tuple am lock (XactLockTableWait am xwait w1)
        (tr @ [Call_index_beginscan, Call_index_rescan, Call_index_getnext_slot,
               Call_XactLockTableWait xwait, Call_index_endscan])) \<and>
   (index_getnext_slot am w = ((Some tup, snap_xmin, snap_xmax), w1) \<and>
    \<not> TransactionIdIsValid snap_xmin \<and> \<not> TransactionIdIsValid snap_xmax \<and>
    heap_lock_tuple am tup w1 = (TM_Updated, w2) \<longrightarrow>
      find_pkey_tuple am True w tr =
      find_pkey_tuple am True w2
        (tr @ [Call_index_beginscan, Call_index_rescan, Call_index_getnext_slot,
               Call_heap_lock_tuple, Log_concurrent_update_retrying, Call_index_endscan])) \<and>
   (find_pkey_tuple am lock w tr = Some (result, w', tr') \<longrightarrow>
      (\<exists>t. tr' = tr @ Call_index_beginscan # Call_index_rescan # t \<and>
           restarts_from_scratch t))"
proof (intro conjI impI)
  assume "index_getnext_slot am w = ((Some tup, snap_xmin, snap_xmax), w1) \<and>
    xwait = (if TransactionIdIsValid snap_xmin then snap_xmin else snap_xmax) \<and>
    TransactionIdIsValid xwait"
  then show "find_pkey_tuple am lock w tr =
      find_pkey_tuple am lock (XactLockTableWait am xwait w1)
        (tr @ [Call_index_beginscan, Call_index_rescan, Call_index_getnext_slot,
               Call_XactLockTableWait xwait, Call_index_endscan])"
    using find_pkey_tuple_retry_after_wait [of am w tup snap_xmin snap_xmax w1 xwait lock tr]
    by blast
next
  assume "index_getnext_slot am w = ((Some tup, snap_xmin, snap_xmax), w1) \<and>
    \<not> TransactionIdIsValid snap_xmin \<and> \<not> TransactionIdIsValid snap_xmax \<and>
    heap_lock_tuple am tup w1 = (TM_Updated, w2)"
  then show "find_pkey_tuple am True w tr =
      find_pkey_tuple am True w2
        (tr @ [Call_index_beginscan, Call_index_rescan, Call_index_getnext_slot,
               Call_heap_lock_tuple, Log_concurrent_update_retrying, Call_index_endscan])"
    using find_pkey_tuple_retry_after_concurrent_update
            [of am w tup snap_xmin snap_xmax w1 w2 tr]
    by blast
next
  assume "find_pkey_tuple am lock w tr = Some (result, w', tr')"
  from find_pkey_tuple_trace [OF this]
  show "\<exists>t. tr' = tr @ Call_index_beginscan # Call_index_rescan # t \<and>
           restarts_from_scratch t"
    by simp
qed

theorem find_pkey_tuple_restarts_from_scratch_witness:
  "index_getnext_slot example_heap (0::nat) = ((Some example_tuple, 77, 0), 0) \<and>
   TransactionIdIsValid 77 \<and>
   find_pkey_tuple example_heap True (0::nat) [] =
     find_pkey_tuple example_heap True (XactLockTableWait example_heap 77 0)
       ([] @ [Call_index_beginscan, Call_index_rescan, Call_index_getnext_slot,
              Call_XactLockTableWait 77, Call_index_endscan]) \<and>
   index_getnext_slot example_heap (1::nat) = ((Some example_tuple, 0, 0), 1) \<and>
   \<not> TransactionIdIsValid 0 \<and>
   heap_lock_tuple example_heap example_tuple (1::nat) = (TM_Updated, 2) \<and>
   find_pkey_tuple example_heap True (1::nat) [] =
     find_pkey_tuple example_heap True (2::nat)
       ([] @ [Call_index_beginscan, Call_index_rescan, Call_index_getnext_slot,
              Call_heap_lock_tuple, Log_concurrent_update_retrying, Call_index_endscan]) \<and>
   find_pkey_tuple example_heap True (0::nat) [] =
     Some (Inr (True, Some example_tuple), 2, example_trace) \<and>
   example_trace = [] @ Call_index_beginscan # Call_index_rescan # drop 2 example_trace \<and>
   restarts_from_scratch (drop 2 example_trace) \<and>
   Call_XactLockTableWait 77 \<in> set example_trace \<and>
   Log_concurrent_update_retrying \<in> set example_trace"
proof -
  have s0: "index_getnext_slot example_heap (0::nat) = ((Some example_tuple, 77, 0), 0)"
    and s1: "index_getnext_slot example_heap (1::nat) = ((Some example_tuple, 0, 0), 1)"
    and l1: "heap_lock_tuple example_heap example_tuple (1::nat) = (TM_Updated, 2)"
    by (simp_all add: example_heap_def)
  have v: "TransactionIdIsValid 77" "\<not> TransactionIdIsValid 0"
    by (simp_all add: TransactionIdIsValid_def InvalidTransactionId_def)
  note a = find_pkey_tuple_restarts_from_scratch
             [where am = example_heap and w = "0::nat" and tup = example_tuple
                and snap_xmin = 77 and snap_xmax = 0 and ?w1.0 = 0 and xwait = 77
                and lock = True and tr = "[]" and result = "Inr (True, Some example_tuple)"
                and w' = 2 and tr' = example_trace]
  note b = find_pkey_tuple_restarts_from_scratch
             [where am = example_heap and w = "1::nat" and tup = example_tuple
                and snap_xmin = 0 and snap_xmax = 0 and ?w1.0 = 1 and ?w2.0 = 2
                and tr = "[]"]
  from a s0 v have a1: "find_pkey_tuple example_heap True (0::nat) [] =
     find_pkey_tuple example_heap True (XactLockTableWait example_heap 77 0)
       ([] @ [Call_index_beginscan, Call_index_rescan, Call_index_getnext_slot,
              Call_XactLockTableWait 77, Call_index_endscan])"
    by simp
  from b s1 l1 v have b1: "find_pkey_tuple example_heap True (1::nat) [] =
     find_pkey_tuple example_heap True (2::nat)
       ([] @ [Call_index_beginscan, Call_index_rescan, Call_index_getnext_slot,
              Call_heap_lock_tuple, Log_concurrent_update_retrying, Call_index_endscan])"
    by simp
  from a example_lookup obtain t where
    "example_trace = [] @ Call_index_beginscan # Call_index_rescan # t"
    and r: "restarts_from_scratch t"
    by blast
  then have "t = drop 2 example_trace" by (simp add: example_trace_def)
  with r have c1: "restarts_from_scratch (drop 2 example_trace)" by simp
  have c2: "example_trace = [] @ Call_index_beginscan # Call_index_rescan # drop 2 example_trace"
    "Call_XactLockTableWait 77 \<in> set example_trace"
    "Log_concurrent_update_retrying \<in> set example_trace"
    by (simp_all add: example_trace_def)
  from s0 s1 l1 v a1 b1 example_lookup c1 c2 show ?thesis by blast
qed

section \<open>Properties of last update wins\<close>

lemma NodeId_less_total:
  assumes "a \<noteq> b"
  shows "NodeId_less a b \<or> NodeId_less b a"
proof -
  from assms have "sysid a \<noteq> sysid b \<or> timeline a \<noteq> timeline b \<or> dboid a \<noteq> dboid b"
    by (cases a; cases b) simp
  then show ?thesis
    unfolding NodeId_less_def by (metis linorder_neqE)
qed

lemma NodeId_less_asym:
  assumes "NodeId_less a b"
  shows "\<not> NodeId_less b a"
  using assms unfolding NodeId_less_def
  by (metis order_less_asym)

lemma last_update_wins_equal_times:
  "last_update_wins ts a ts b =
     (if NodeId_less a b then Some BdrConflictResolution_LastUpdateWins_KeepRemote
      else if NodeId_less b a then Some BdrConflictResolution_LastUpdateWins_KeepLocal
      else None)"
  by (simp add: last_update_wins_def)

text \<open>
  Claim C7. For two distinct NodeIds and equal commit timestamps, the decision is one of
  \<open>LastUpdateWins_KeepLocal\<close> and \<open>LastUpdateWins_KeepRemote\<close>; it keeps the remote
  change exactly when the remote NodeId is the larger one in the order by system_id,
  then timeline_id, then database_id; and with local and remote swapped the decision is
  the opposite one.
\<close>

theorem last_update_wins_tie_break:
  assumes "local_origin \<noteq> remote_origin"
  shows "(last_update_wins ts local_origin ts remote_origin =
            Some BdrConflictResolution_LastUpdateWins_KeepRemote \<or>
          last_update_wins ts local_origin ts remote_origin =
            Some BdrConflictResolution_LastUpdateWins_KeepLocal) \<and>
         (last_update_wins ts local_origin ts remote_origin =
            Some BdrConflictResolution_LastUpdateWins_KeepRemote \<longleftrightarrow>
          (sysid local_origin < sysid remote_origin \<or>
           (sysid local_origin = sysid remote_origin \<and>
            (timeline local_origin < timeline remote_origin \<or>
             (timeline local_origin = timeline remote_origin \<and>
              dboid local_origin < dboid remote_origin))))) \<and>
         (last_update_wins ts local_origin ts remote_origin =
            Some BdrConflictResolution_LastUpdateWins_KeepRemote \<longrightarrow>
          last_update_wins ts remote_origin ts local_origin =
            Some BdrConflictResolution_LastUpdateWins_KeepLocal) \<and>
         (last_update_wins ts local_origin ts remote_origin =
            Some BdrConflictResolution_LastUpdateWins_KeepLocal \<longrightarrow>
          last_update_wins ts remote_origin ts local_origin =
            Some BdrConflictResolution_LastUpdateWins_KeepRemote)"
proof (cases "NodeId_less local_origin remote_origin")
  case True
  with NodeId_less_asym [OF True] show ?thesis
    unfolding last_update_wins_equal_times
    by (simp add: NodeId_less_def [of local_origin remote_origin])
next
  case False
  with NodeId_less_total [OF assms] have r: "NodeId_less remote_origin local_origin"
    by simp
  from False r show ?thesis
    unfolding last_update_wins_equal_times
    by (simp add: NodeId_less_def [of local_origin remote_origin])
qed

theorem last_update_wins_tie_break_witness:
  "node5 \<noteq> node9 \<and>
   last_update_wins 150 node5 150 node9 = Some BdrConflictResolution_LastUpdateWins_KeepRemote \<and>
   sysid node5 < sysid node9 \<and>
   last_update_wins 150 node9 150 node5 = Some BdrConflictResolution_LastUpdateWins_KeepLocal"
proof -
  have d: "node5 \<noteq> node9" by (simp add: node5_def node9_def)
  have l: "sysid node5 < sysid node9" by (simp add: node5_def node9_def)
  from last_update_wins_tie_break [OF d, of 150] l d show ?thesis by auto
qed

end
